theory Spec2Isabelle
  imports Complex_Main "HOL-Library.Multiset"
begin

section \<open>The movie-recommendation script and the engine it drives\<close>

text \<open>
  The repository is one script, \<^verbatim>\<open>movie_recs_ml.py\<close>: a function
  \<^verbatim>\<open>init_spark_context\<close> and a straight-line main block. Every statement of the
  main block is a call into the data-processing engine, its machine-learning library or
  the document-store connector. The script is embedded as the function \<open>main\<close> below,
  statement by statement, in a state-and-exception monad over a \<open>world\<close>: the document
  store, the session, the things written to standard output and the randomness the
  process draws.

  The engine's operations are not code of the repository. The relational and
  input/output operations (select, distinct, limit, cast, the save modes, top-k
  recommendation) are written out below after the engine's documented behaviour; the
  numeric parts (what alternating least squares learns, the pseudo-random bits of the
  sampler, how a float prints) and the failures the environment injects are parameters,
  collected in the record \<open>engine\<close>.
  A floating-point value is NaN or the real number it denotes: rounding and infinities
  are outside the model.
\<close>

subsection \<open>Values, column types and tables\<close>

datatype flt = NaN | Fin real

datatype dtype =
    IntegerType
  | FloatType
  | DoubleType
  | StringType
  | ArrayType dtype
  | StructType "(string \<times> dtype) list"

datatype val =
    IntV int
  | FloatV flt
  | DoubleV flt
  | StrV string
  | ArrayV "val list"
  | StructV "val list"

record dataframe =
  schema :: "(string \<times> dtype) list"
  rows :: "val list list"

definition columns :: "dataframe \<Rightarrow> string list" where
  "columns d = map fst (schema d)"

fun index_of :: "string \<Rightarrow> string list \<Rightarrow> nat option" where
  "index_of n [] = None"
| "index_of n (x # xs) = (if x = n then Some 0 else map_option Suc (index_of n xs))"

definition cell :: "val list \<Rightarrow> nat \<Rightarrow> val option" where
  "cell r i = (if i < length r then Some (r ! i) else None)"

text \<open>\<^verbatim>\<open>df.select(*names)\<close>: the projection on the named columns, in the order given;
  an unknown column is an analysis error.\<close>

definition select :: "dataframe \<Rightarrow> string list \<Rightarrow> string + dataframe" where
  "select d names =
     (case those (map (\<lambda>n. index_of n (columns d)) names) of
        None \<Rightarrow> Inl ''AnalysisException''
      | Some idx \<Rightarrow>
          Inr \<lparr>schema = map (\<lambda>i. schema d ! i) idx,
               rows = map (\<lambda>r. map (\<lambda>i. r ! i) idx) (rows d)\<rparr>)"

definition distinct_rows :: "dataframe \<Rightarrow> dataframe" where
  "distinct_rows d = d\<lparr>rows := remdups (rows d)\<rparr>"

definition limit :: "dataframe \<Rightarrow> nat \<Rightarrow> dataframe" where
  "limit d n = d\<lparr>rows := take n (rows d)\<rparr>"

subsection \<open>Column expressions and casts\<close>

datatype column = Col string | Cast column dtype

text \<open>The casts the model covers: a type to itself, single to double precision, and
  arrays and structs of those, field by field (a struct cast renames the fields to the
  target's names). No other cast occurs in the script.\<close>

fun can_cast :: "dtype \<Rightarrow> dtype \<Rightarrow> bool"
  and can_cast_fields :: "(string \<times> dtype) list \<Rightarrow> (string \<times> dtype) list \<Rightarrow> bool" where
  "can_cast (ArrayType s) (ArrayType t) = can_cast s t"
| "can_cast (StructType fs) (StructType gs) = can_cast_fields fs gs"
| "can_cast FloatType DoubleType = True"
| "can_cast s t = (s = t)"
| "can_cast_fields [] [] = True"
| "can_cast_fields (f # fs) (g # gs) = (can_cast (snd f) (snd g) \<and> can_cast_fields fs gs)"
| "can_cast_fields _ _ = False"

fun cast_val :: "dtype \<Rightarrow> val \<Rightarrow> val"
  and cast_vals :: "(string \<times> dtype) list \<Rightarrow> val list \<Rightarrow> val list" where
  "cast_val (ArrayType t) (ArrayV vs) = ArrayV (map (cast_val t) vs)"
| "cast_val (StructType gs) (StructV vs) = StructV (cast_vals gs vs)"
| "cast_val DoubleType (FloatV x) = DoubleV x"
| "cast_val t v = v"
| "cast_vals (g # gs) (v # vs) = cast_val (snd g) v # cast_vals gs vs"
| "cast_vals _ _ = []"

fun column_type :: "dataframe \<Rightarrow> column \<Rightarrow> dtype option" where
  "column_type d (Col n) = map_option (\<lambda>i. snd (schema d ! i)) (index_of n (columns d))"
| "column_type d (Cast c t) =
     (case column_type d c of
        None \<Rightarrow> None
      | Some s \<Rightarrow> if can_cast s t then Some t else None)"

fun column_value :: "dataframe \<Rightarrow> val list \<Rightarrow> column \<Rightarrow> val" where
  "column_value d r (Col n) = r ! the (index_of n (columns d))"
| "column_value d r (Cast c t) = cast_val t (column_value d r c)"

text \<open>\<^verbatim>\<open>df[name]\<close> and \<^verbatim>\<open>column.cast(t)\<close>.\<close>

definition getitem :: "dataframe \<Rightarrow> string \<Rightarrow> string + column" where
  "getitem d n = (if n \<in> set (columns d) then Inr (Col n) else Inl ''AnalysisException'')"

definition cast :: "column \<Rightarrow> dtype \<Rightarrow> column" where
  "cast c t = Cast c t"

text \<open>\<^verbatim>\<open>df.withColumn(name, col)\<close>: a column of that name is replaced where it
  stands, a new name is appended.\<close>

definition withColumn :: "dataframe \<Rightarrow> string \<Rightarrow> column \<Rightarrow> string + dataframe" where
  "withColumn d n c =
     (case column_type d c of
        None \<Rightarrow> Inl ''AnalysisException''
      | Some t \<Rightarrow>
          (case index_of n (columns d) of
             Some i \<Rightarrow>
               Inr \<lparr>schema = (schema d)[i := (n, t)],
                    rows = map (\<lambda>r. r[i := column_value d r c]) (rows d)\<rparr>
           | None \<Rightarrow>
               Inr \<lparr>schema = schema d @ [(n, t)],
                    rows = map (\<lambda>r. r @ [column_value d r c]) (rows d)\<rparr>))"

subsection \<open>The world: store, session, output, randomness\<close>

datatype session_state = NotStarted | Live "(string \<times> string) list" | Stopped

datatype save_mode = Append | Overwrite | Ignore | ErrorIfExists

type_synonym namespace = "string \<times> string"

datatype event =
    SessionStarted "(string \<times> string) list"
  | Loaded string
  | Wrote namespace save_mode dataframe
  | Printed string
  | Showed dataframe
  | SessionStopped

text \<open>
  \<open>store\<close> maps a (database, collection) pair to the collection in tabular form;
  \<open>randoms\<close> is the sequence of numbers the process's random module will return and
  \<open>drawn\<close> how many were taken; \<open>trace\<close> is the chronological list of externally
  visible effects.
\<close>

record world =
  store :: "namespace \<Rightarrow> dataframe option"
  session :: session_state
  loggers :: "string \<Rightarrow> string option"
  randoms :: "nat \<Rightarrow> nat"
  drawn :: nat
  trace :: "event list"

text \<open>The ways a call changes the world.\<close>

definition emit :: "event \<Rightarrow> world \<Rightarrow> world" where
  "emit e w = w\<lparr>trace := trace w @ [e]\<rparr>"

definition put :: "namespace \<Rightarrow> dataframe \<Rightarrow> world \<Rightarrow> world" where
  "put ns t w = w\<lparr>store := (store w)(ns \<mapsto> t)\<rparr>"

definition set_session :: "session_state \<Rightarrow> world \<Rightarrow> world" where
  "set_session s w = w\<lparr>session := s\<rparr>"

definition set_logger :: "string \<Rightarrow> string \<Rightarrow> world \<Rightarrow> world" where
  "set_logger name level w = w\<lparr>loggers := (loggers w)(name \<mapsto> level)\<rparr>"

definition advance :: "world \<Rightarrow> world" where
  "advance w = w\<lparr>drawn := Suc (drawn w)\<rparr>"

text \<open>An uncaught exception: the source line of the failing statement and the
  exception's name, as the traceback shows them.\<close>

datatype error = Uncaught nat string

type_synonym 'a prim = "world \<Rightarrow> (string + 'a) \<times> world"
type_synonym 'a action = "world \<Rightarrow> (error + 'a) \<times> world"

definition ret :: "'a \<Rightarrow> 'a action" where
  "ret x w = (Inr x, w)"

definition bnd :: "'a action \<Rightarrow> ('a \<Rightarrow> 'b action) \<Rightarrow> 'b action" where
  "bnd m f w = (case m w of (Inl e, w') \<Rightarrow> (Inl e, w') | (Inr x, w') \<Rightarrow> f x w')"

definition lift :: "string + 'a \<Rightarrow> 'a prim" where
  "lift r w = (r, w)"

text \<open>A chain of calls \<^verbatim>\<open>a.f(...).g(...)\<close>: the first exception ends it.\<close>

definition then_do :: "string + 'a \<Rightarrow> ('a \<Rightarrow> string + 'b) \<Rightarrow> string + 'b" where
  "then_do r f = (case r of Inl x \<Rightarrow> Inl x | Inr y \<Rightarrow> f y)"

subsection \<open>Session\<close>

definition SparkConf :: "(string \<times> string) list" where
  "SparkConf = []"

definition setAppName :: "(string \<times> string) list \<Rightarrow> string \<Rightarrow> (string \<times> string) list" where
  "setAppName conf name = conf @ [(''spark.app.name'', name)]"

definition set_conf :: "(string \<times> string) list \<Rightarrow> string \<Rightarrow> string \<Rightarrow> (string \<times> string) list" where
  "set_conf conf k v = conf @ [(k, v)]"

text \<open>Only one context may be live in a process.\<close>

definition SparkContext :: "(string \<times> string) list \<Rightarrow> ((string \<times> string) list) prim" where
  "SparkContext conf w =
     (case session w of
        Live _ \<Rightarrow> (Inl ''ValueError'', w)
      | _ \<Rightarrow> (Inr conf, emit (SessionStarted conf) (set_session (Live conf) w)))"

definition setLevel :: "string \<Rightarrow> string \<Rightarrow> unit prim" where
  "setLevel name level w = (Inr (), set_logger name level w)"

definition stop :: "unit prim" where
  "stop w = (Inr (), emit SessionStopped (set_session Stopped w))"

definition print :: "string \<Rightarrow> unit prim" where
  "print s w = (Inr (), emit (Printed s) w)"

text \<open>\<^verbatim>\<open>df.show()\<close> prints a preview of the first 20 rows.\<close>

definition show_df :: "dataframe \<Rightarrow> unit prim" where
  "show_df d w = (Inr (), emit (Showed (limit d 20)) w)"

subsection \<open>The document-store connector\<close>

text \<open>The namespace a connection URI names:
  \<^verbatim>\<open>mongodb://host/database.collection?options\<close>.\<close>

definition uri_namespace :: "string \<Rightarrow> namespace option" where
  "uri_namespace u =
     (if take 10 u = ''mongodb://'' then
        (let path = takeWhile (\<lambda>c. c \<noteq> CHR ''?'')
                      (drop 1 (dropWhile (\<lambda>c. c \<noteq> CHR ''/'') (drop 10 u)))
         in Some (takeWhile (\<lambda>c. c \<noteq> CHR ''.'') path,
                  drop 1 (dropWhile (\<lambda>c. c \<noteq> CHR ''.'') path)))
      else None)"

text \<open>A reader or writer under construction: \<^verbatim>\<open>.format(f).options(**kw).mode(m)\<close>.\<close>

record source =
  src_format :: string
  src_options :: "(string \<times> string) list"

record writer = source +
  wr_data :: dataframe
  wr_mode :: string

definition read_src :: source where
  "read_src = \<lparr>src_format = ''parquet'', src_options = []\<rparr>"

definition write_df :: "dataframe \<Rightarrow> writer" where
  "write_df d = \<lparr>src_format = ''parquet'', src_options = [], wr_data = d, wr_mode = ''error''\<rparr>"

definition format_src :: "('a source_scheme) \<Rightarrow> string \<Rightarrow> 'a source_scheme" where
  "format_src s f = s\<lparr>src_format := f\<rparr>"

definition options :: "('a source_scheme) \<Rightarrow> (string \<times> string) list \<Rightarrow> 'a source_scheme" where
  "options s kw = s\<lparr>src_options := src_options s @ kw\<rparr>"

definition mode :: "writer \<Rightarrow> string \<Rightarrow> writer" where
  "mode s m = s\<lparr>wr_mode := m\<rparr>"

definition mongo_format :: "string \<Rightarrow> bool" where
  "mongo_format f = (f = ''com.mongodb.spark.sql'' \<or> f = ''com.mongodb.spark.sql.DefaultSource'')"

definition target :: "('a source_scheme) \<Rightarrow> string + namespace" where
  "target s =
     (if \<not> mongo_format (src_format s) then Inl ''ClassNotFoundException''
      else
        (case map_of (rev (src_options s)) ''uri'' of
           None \<Rightarrow> Inl ''IllegalArgumentException''
         | Some u \<Rightarrow>
             (case uri_namespace u of
                None \<Rightarrow> Inl ''IllegalArgumentException''
              | Some (db, c) \<Rightarrow>
                  (case map_of (rev (src_options s)) ''collection'' of
                     None \<Rightarrow> Inr (db, c)
                   | Some c' \<Rightarrow> Inr (db, c')))))"

text \<open>\<^verbatim>\<open>.load()\<close>: the collection as a table; a collection that does not exist loads
  as the table with no column and no row.\<close>

definition load :: "source \<Rightarrow> dataframe prim" where
  "load s w =
     (case target s of
        Inl x \<Rightarrow> (Inl x, w)
      | Inr ns \<Rightarrow>
          (Inr (case store w ns of None \<Rightarrow> \<lparr>schema = [], rows = []\<rparr> | Some t \<Rightarrow> t),
           emit (Loaded (the (map_of (rev (src_options s)) ''uri''))) w))"

definition parse_mode :: "string \<Rightarrow> save_mode option" where
  "parse_mode m =
     (if m = ''overwrite'' then Some Overwrite
      else if m = ''append'' then Some Append
      else if m = ''ignore'' then Some Ignore
      else if m = ''error'' \<or> m = ''errorifexists'' \<or> m = ''default'' then Some ErrorIfExists
      else None)"

text \<open>\<^verbatim>\<open>.save()\<close>. Overwrite drops the collection and inserts the table; append
  inserts after what is there; ignore and error leave an existing collection alone.\<close>

definition save :: "writer \<Rightarrow> unit prim" where
  "save s w =
     (case parse_mode (wr_mode s) of
        None \<Rightarrow> (Inl ''IllegalArgumentException'', w)
      | Some m \<Rightarrow>
          (case target s of
             Inl x \<Rightarrow> (Inl x, w)
           | Inr ns \<Rightarrow>
               (let d = wr_data s;
                    insert_all = (\<lambda>t. (Inr (), emit (Wrote ns m d) (put ns t w)))
                in case m of
                     Overwrite \<Rightarrow> insert_all d
                   | Append \<Rightarrow>
                       (case store w ns of
                          None \<Rightarrow> insert_all d
                        | Some old \<Rightarrow> insert_all (old\<lparr>rows := rows old @ rows d\<rparr>))
                   | Ignore \<Rightarrow>
                       (case store w ns of None \<Rightarrow> insert_all d | Some old \<Rightarrow> (Inr (), w))
                   | ErrorIfExists \<Rightarrow>
                       (case store w ns of
                          None \<Rightarrow> insert_all d
                        | Some old \<Rightarrow> (Inl ''AnalysisException'', w)))))"

subsection \<open>The engine's parameters\<close>

record als_params =
  maxIter :: nat
  regParam :: real
  userCol :: string
  itemCol :: string
  ratingCol :: string
  coldStartStrategy :: string

text \<open>
  \<open>next_bits seed i\<close>: the random bits the sampler seeded with \<open>seed\<close> produces for
  row \<open>i\<close>; \<open>learn p obs u i\<close>: the rating that the factors learnt from the observations
  \<open>obs\<close> under the parameters \<open>p\<close> predict for user \<open>u\<close> and item \<open>i\<close>;
  \<open>float_str\<close>: how a float prints; \<open>raises l\<close>: the exception the engine or the store
  raises while the statement at source line \<open>l\<close> runs, if any (the store is unreachable,
  an executor is lost).
\<close>

record engine =
  next_bits :: "nat \<Rightarrow> nat \<Rightarrow> nat"
  learn :: "als_params \<Rightarrow> (int \<times> int \<times> real) list \<Rightarrow> int \<Rightarrow> int \<Rightarrow> real"
  float_str :: "flt \<Rightarrow> string"
  raises :: "nat \<Rightarrow> string option"

text \<open>The statement at line \<open>l\<close>: an injected failure raises before the call has any
  effect; otherwise the call runs, and an exception it raises is reported at \<open>l\<close>.\<close>

definition line :: "engine \<Rightarrow> nat \<Rightarrow> 'a prim \<Rightarrow> 'a action" where
  "line eng l p w =
     (case raises eng l of
        Some x \<Rightarrow> (Inl (Uncaught l x), w)
      | None \<Rightarrow>
          (case p w of
             (Inl x, w') \<Rightarrow> (Inl (Uncaught l x), w')
           | (Inr y, w') \<Rightarrow> (Inr y, w')))"


subsection \<open>Random split\<close>

fun scan_sum :: "real \<Rightarrow> real list \<Rightarrow> real list" where
  "scan_sum acc [] = [acc]"
| "scan_sum acc (x # xs) = acc # scan_sum (acc + x) xs"

text \<open>The cumulative normalised weights, from 0: the cell boundaries of the sampler.\<close>

definition bounds :: "real list \<Rightarrow> real list" where
  "bounds ws = scan_sum 0 (map (\<lambda>x. x / sum_list ws) ws)"

text \<open>A uniform draw in [0, 1): 53 random bits over \<open>2 ^ 53\<close>.\<close>

definition draw :: "engine \<Rightarrow> nat \<Rightarrow> nat \<Rightarrow> real" where
  "draw eng seed i = real (next_bits eng seed i mod 2 ^ 53) / 2 ^ 53"

definition in_cell :: "engine \<Rightarrow> nat \<Rightarrow> real \<times> real \<Rightarrow> nat \<times> val list \<Rightarrow> bool" where
  "in_cell eng seed c ir = (fst c \<le> draw eng seed (fst ir) \<and> draw eng seed (fst ir) < snd c)"

definition split_with_seed :: "engine \<Rightarrow> dataframe \<Rightarrow> real list \<Rightarrow> nat \<Rightarrow> dataframe list" where
  "split_with_seed eng d ws seed =
     map (\<lambda>c. d\<lparr>rows := map snd (filter (in_cell eng seed c) (enumerate 0 (rows d)))\<rparr>)
       (zip (bounds ws) (tl (bounds ws)))"

text \<open>\<^verbatim>\<open>df.randomSplit(weights, seed=None)\<close>: without a seed, the seed is the next
  number of the process's random module.\<close>

definition randomSplit ::
  "engine \<Rightarrow> dataframe \<Rightarrow> real list \<Rightarrow> nat option \<Rightarrow> (dataframe list) prim" where
  "randomSplit eng d ws seed w =
     (if list_ex (\<lambda>x. x < 0) ws then (Inl ''ValueError'', w)
      else
        (case seed of
           Some s \<Rightarrow> (Inr (split_with_seed eng d ws s), w)
         | None \<Rightarrow>
             (Inr (split_with_seed eng d ws (randoms w (drawn w))), advance w)))"

text \<open>\<^verbatim>\<open>(a, b) = xs\<close>.\<close>

definition unpack2 :: "'a list \<Rightarrow> string + ('a \<times> 'a)" where
  "unpack2 xs = (case xs of [a, b] \<Rightarrow> Inr (a, b) | _ \<Rightarrow> Inl ''ValueError'')"

definition and_then :: "'a prim \<Rightarrow> ('a \<Rightarrow> string + 'b) \<Rightarrow> 'b prim" where
  "and_then p f w = (case p w of (Inl x, w') \<Rightarrow> (Inl x, w') | (Inr y, w') \<Rightarrow> (f y, w'))"

subsection \<open>Alternating least squares: estimator and model\<close>

definition ALS :: "nat \<Rightarrow> real \<Rightarrow> string \<Rightarrow> string \<Rightarrow> string \<Rightarrow> string \<Rightarrow> als_params" where
  "ALS mi rp uc ic rc cs =
     \<lparr>maxIter = mi, regParam = rp, userCol = uc, itemCol = ic, ratingCol = rc,
      coldStartStrategy = cs\<rparr>"

definition getUserCol :: "als_params \<Rightarrow> string" where
  "getUserCol p = userCol p"

definition getItemCol :: "als_params \<Rightarrow> string" where
  "getItemCol p = itemCol p"

text \<open>A fitted model: the parameters it was fitted with, the users and the items it has
  factors for, and the rating its factors predict for a user and an item.\<close>

record als_model =
  fitted_with :: als_params
  user_ids :: "int list"
  item_ids :: "int list"
  predict :: "int \<Rightarrow> int \<Rightarrow> real"

fun num_of :: "val \<Rightarrow> real option" where
  "num_of (IntV n) = Some (of_int n)"
| "num_of (FloatV (Fin x)) = Some x"
| "num_of (DoubleV (Fin x)) = Some x"
| "num_of _ = None"

definition observation :: "nat \<Rightarrow> nat \<Rightarrow> nat \<Rightarrow> val list \<Rightarrow> (int \<times> int \<times> real) option" where
  "observation a b c r =
     (case (cell r a, cell r b, cell r c) of
        (Some (IntV u), Some (IntV i), Some x) \<Rightarrow> map_option (\<lambda>q. (u, i, q)) (num_of x)
      | _ \<Rightarrow> None)"

text \<open>The (user, item, rating) triples of a table, read from the columns the
  parameters name.\<close>

definition observations :: "als_params \<Rightarrow> dataframe \<Rightarrow> string + (int \<times> int \<times> real) list" where
  "observations p d =
     (case (index_of (userCol p) (columns d), index_of (itemCol p) (columns d),
            index_of (ratingCol p) (columns d)) of
        (Some a, Some b, Some c) \<Rightarrow>
          (case those (map (observation a b c) (rows d)) of
             None \<Rightarrow> Inl ''SparkException''
           | Some obs \<Rightarrow> Inr obs)
      | _ \<Rightarrow> Inl ''IllegalArgumentException'')"

text \<open>\<^verbatim>\<open>als.fit(training)\<close>: the model has factors for exactly the users and the items
  of the training table; an empty training table is an error.\<close>

definition fit :: "engine \<Rightarrow> als_params \<Rightarrow> dataframe \<Rightarrow> string + als_model" where
  "fit eng p d =
     (case observations p d of
        Inl x \<Rightarrow> Inl x
      | Inr obs \<Rightarrow>
          if obs = [] then Inl ''IllegalArgumentException''
          else Inr \<lparr>fitted_with = p,
                    user_ids = remdups (map fst obs),
                    item_ids = remdups (map (\<lambda>t. fst (snd t)) obs),
                    predict = learn eng p obs\<rparr>)"

definition prediction :: "als_model \<Rightarrow> nat \<Rightarrow> nat \<Rightarrow> val list \<Rightarrow> flt" where
  "prediction m a b r =
     (case (cell r a, cell r b) of
        (Some (IntV u), Some (IntV i)) \<Rightarrow>
          if u \<in> set (user_ids m) \<and> i \<in> set (item_ids m) then Fin (predict m u i) else NaN
      | _ \<Rightarrow> NaN)"

text \<open>\<^verbatim>\<open>model.transform(df)\<close> appends the column \<^verbatim>\<open>prediction\<close>: NaN for a row whose
  user or item the model has no factors for; under the cold-start strategy
  \<^verbatim>\<open>drop\<close> the rows with a NaN prediction are then removed.\<close>

definition scored :: "val list \<Rightarrow> bool" where
  "scored r = (r \<noteq> [] \<and> last r \<noteq> FloatV NaN)"

definition transform :: "als_model \<Rightarrow> dataframe \<Rightarrow> string + dataframe" where
  "transform m d =
     (case (index_of (userCol (fitted_with m)) (columns d),
            index_of (itemCol (fitted_with m)) (columns d)) of
        (Some a, Some b) \<Rightarrow>
          (let predicted = map (\<lambda>r. r @ [FloatV (prediction m a b r)]) (rows d)
           in Inr \<lparr>schema = schema d @ [(''prediction'', FloatType)],
                   rows = (if coldStartStrategy (fitted_with m) = ''drop''
                           then filter scored predicted else predicted)\<rparr>)
      | _ \<Rightarrow> Inl ''IllegalArgumentException'')"

subsection \<open>Regression evaluator\<close>

record evaluator_params =
  metricName :: string
  labelCol :: string
  predictionCol :: string

definition RegressionEvaluator :: "string \<Rightarrow> string \<Rightarrow> string \<Rightarrow> evaluator_params" where
  "RegressionEvaluator mn lc pc = \<lparr>metricName = mn, labelCol = lc, predictionCol = pc\<rparr>"

fun flt_of :: "val \<Rightarrow> flt option" where
  "flt_of (IntV n) = Some (Fin (of_int n))"
| "flt_of (FloatV x) = Some x"
| "flt_of (DoubleV x) = Some x"
| "flt_of _ = None"

fun sq_err :: "flt \<times> flt \<Rightarrow> real option" where
  "sq_err (Fin p, Fin l) = Some ((p - l)\<^sup>2)"
| "sq_err _ = None"

text \<open>Root-mean-square error of (prediction, label) pairs: NaN when a pair holds a
  NaN, and NaN (zero over zero) on no pair at all.\<close>

definition rmse_of :: "(flt \<times> flt) list \<Rightarrow> flt" where
  "rmse_of ps =
     (case those (map sq_err ps) of
        None \<Rightarrow> NaN
      | Some es \<Rightarrow> if es = [] then NaN else Fin (sqrt (sum_list es / real (length es))))"

definition scored_pair :: "nat \<Rightarrow> nat \<Rightarrow> val list \<Rightarrow> (flt \<times> flt) option" where
  "scored_pair a b r =
     (case (cell r a, cell r b) of
        (Some x, Some y) \<Rightarrow>
          (case (flt_of x, flt_of y) of (Some p, Some l) \<Rightarrow> Some (p, l) | _ \<Rightarrow> None)
      | _ \<Rightarrow> None)"

definition evaluate :: "evaluator_params \<Rightarrow> dataframe \<Rightarrow> string + flt" where
  "evaluate ev d =
     (if metricName ev \<noteq> ''rmse'' then Inl ''IllegalArgumentException''
      else
        (case (index_of (predictionCol ev) (columns d), index_of (labelCol ev) (columns d)) of
           (Some a, Some b) \<Rightarrow>
             (case those (map (scored_pair a b) (rows d)) of
                None \<Rightarrow> Inl ''SparkException''
              | Some ps \<Rightarrow> Inr (rmse_of ps))
         | _ \<Rightarrow> Inl ''IllegalArgumentException''))"

subsection \<open>Recommendation\<close>

text \<open>The \<open>k\<close> best-scored of a list of (id, score) pairs, best first.\<close>

definition top_k :: "nat \<Rightarrow> (int \<times> real) list \<Rightarrow> (int \<times> real) list" where
  "top_k k xs = take k (sort_key (\<lambda>p. - snd p) xs)"

definition rec_entry :: "int \<times> real \<Rightarrow> val" where
  "rec_entry p = StructV [IntV (fst p), FloatV (Fin (snd p))]"

text \<open>For every source id, the \<open>k\<close> best destination ids among all the model has
  factors for.\<close>

definition recommendForAll ::
  "string \<Rightarrow> string \<Rightarrow> int list \<Rightarrow> int list \<Rightarrow> (int \<Rightarrow> int \<Rightarrow> real) \<Rightarrow> nat \<Rightarrow> dataframe" where
  "recommendForAll srcCol dstCol srcs dsts f k =
     \<lparr>schema = [(srcCol, IntegerType),
                (''recommendations'',
                 ArrayType (StructType [(dstCol, IntegerType), (''rating'', FloatType)]))],
      rows = map (\<lambda>s. [IntV s, ArrayV (map rec_entry (top_k k (map (\<lambda>t. (t, f s t)) dsts)))])
               srcs\<rparr>"

definition recommendForAllUsers :: "als_model \<Rightarrow> nat \<Rightarrow> dataframe" where
  "recommendForAllUsers m k =
     recommendForAll (userCol (fitted_with m)) (itemCol (fitted_with m))
       (user_ids m) (item_ids m) (predict m) k"

definition recommendForAllItems :: "als_model \<Rightarrow> nat \<Rightarrow> dataframe" where
  "recommendForAllItems m k =
     recommendForAll (itemCol (fitted_with m)) (userCol (fitted_with m))
       (item_ids m) (user_ids m) (\<lambda>i u. predict m u i) k"

text \<open>The ids of a list that occur in the named column of a table.\<close>

definition subset_ids :: "dataframe \<Rightarrow> nat \<Rightarrow> int list \<Rightarrow> int list" where
  "subset_ids d a ids = filter (\<lambda>u. list_ex (\<lambda>r. cell r a = Some (IntV u)) (rows d)) ids"

definition recommendForUserSubset :: "als_model \<Rightarrow> dataframe \<Rightarrow> nat \<Rightarrow> string + dataframe" where
  "recommendForUserSubset m d k =
     (case index_of (userCol (fitted_with m)) (columns d) of
        None \<Rightarrow> Inl ''AnalysisException''
      | Some a \<Rightarrow>
          Inr (recommendForAll (userCol (fitted_with m)) (itemCol (fitted_with m))
                 (subset_ids d a (user_ids m)) (item_ids m) (predict m) k))"

definition recommendForItemSubset :: "als_model \<Rightarrow> dataframe \<Rightarrow> nat \<Rightarrow> string + dataframe" where
  "recommendForItemSubset m d k =
     (case index_of (itemCol (fitted_with m)) (columns d) of
        None \<Rightarrow> Inl ''AnalysisException''
      | Some a \<Rightarrow>
          Inr (recommendForAll (itemCol (fitted_with m)) (userCol (fitted_with m))
                 (subset_ids d a (item_ids m)) (user_ids m) (\<lambda>i u. predict m u i) k))"

subsection \<open>The script\<close>

text \<open>\<^verbatim>\<open>init_spark_context\<close>, lines 25 to 28.\<close>

definition init_spark_context :: "engine \<Rightarrow> ((string \<times> string) list) action" where
  "init_spark_context eng =
     (let conf = set_conf (setAppName SparkConf ''MovieRatings'') ''spark.executor.memory'' ''4g''
      in bnd (line eng 27 (SparkContext conf)) (\<lambda>sc.
         ret sc))"

definition SQLContext :: "(string \<times> string) list \<Rightarrow> (string \<times> string) list" where
  "SQLContext c = c"

text \<open>The variables of the main block, as they stand when the script falls through.\<close>

record vars =
  sc :: "(string \<times> string) list"
  uri :: string
  df :: dataframe
  ratings :: dataframe
  training :: dataframe
  test :: dataframe
  als :: als_params
  model :: als_model
  predictions :: dataframe
  evaluator :: evaluator_params
  rmse :: flt
  userRecs :: dataframe
  movieRecs :: dataframe
  users :: dataframe
  userSubsetRecs :: dataframe
  movies :: dataframe
  movieSubSetRecs :: dataframe

text \<open>The main block, lines 31 to 90. Each \<open>line l\<close> is the statement that starts at
  source line \<open>l\<close>.\<close>

definition main :: "engine \<Rightarrow> vars action" where
  "main eng =
     bnd (init_spark_context eng) (\<lambda>sc.
     bnd (line eng 34 (setLevel ''org'' ''WARN'')) (\<lambda>_.
     let uri = ''mongodb://localhost:27017/movies.movie_ratings?readPreference=primaryPreferred'' in
     bnd (line eng 39 (lift (Inr (SQLContext sc)))) (\<lambda>sqlContext.
     bnd (line eng 41 (load (options (format_src read_src ''com.mongodb.spark.sql'') [(''uri'', uri)]))) (\<lambda>df.
     bnd (line eng 42 (lift (select df [''user_id'', ''movie_id'', ''rating'']))) (\<lambda>ratings.
     bnd (line eng 44 (and_then (randomSplit eng ratings [8 / 10, 2 / 10] None) unpack2)) (\<lambda>(training, test).
     let als = ALS 5 (1 / 100) ''user_id'' ''movie_id'' ''rating'' ''drop'' in
     bnd (line eng 50 (lift (fit eng als training))) (\<lambda>model.
     bnd (line eng 53 (lift (transform model test))) (\<lambda>predictions.
     let evaluator = RegressionEvaluator ''rmse'' ''rating'' ''prediction'' in
     bnd (line eng 56 (lift (evaluate evaluator predictions))) (\<lambda>rmse.
     bnd (line eng 57 (print (''Root-mean-square error = '' @ float_str eng rmse))) (\<lambda>_.
     bnd (line eng 60 (lift (Inr (recommendForAllUsers model 10)))) (\<lambda>userRecs0.
     bnd (line eng 63 (lift (then_do (getitem userRecs0 ''recommendations'') (\<lambda>c.
                           withColumn userRecs0 ''recommendations''
                             (cast c (ArrayType (StructType
                                [(''movie_id'', IntegerType), (''rating'', DoubleType)]))))))) (\<lambda>userRecs.
     bnd (line eng 72 (save (mode (options (format_src (write_df userRecs)
                                   ''com.mongodb.spark.sql.DefaultSource'')
                                 [(''uri'', uri), (''collection'', ''user_recommendations'')])
                           ''overwrite''))) (\<lambda>_.
     bnd (line eng 75 (lift (Inr (recommendForAllItems model 10)))) (\<lambda>movieRecs.
     bnd (line eng 78 (lift (then_do (select ratings [getUserCol als]) (\<lambda>d.
                           Inr (limit (distinct_rows d) 3))))) (\<lambda>users.
     bnd (line eng 79 (lift (recommendForUserSubset model users 10))) (\<lambda>userSubsetRecs.
     bnd (line eng 81 (lift (then_do (select ratings [getItemCol als]) (\<lambda>d.
                           Inr (limit (distinct_rows d) 3))))) (\<lambda>movies.
     bnd (line eng 82 (lift (recommendForItemSubset model movies 10))) (\<lambda>movieSubSetRecs.
     bnd (line eng 84 (show_df userRecs)) (\<lambda>_.
     bnd (line eng 85 (show_df movieRecs)) (\<lambda>_.
     bnd (line eng 86 (show_df userSubsetRecs)) (\<lambda>_.
     bnd (line eng 87 (show_df movieSubSetRecs)) (\<lambda>_.
     bnd (line eng 90 stop) (\<lambda>_.
     ret \<lparr>sc = sc, uri = uri, df = df, ratings = ratings, training = training, test = test,
          als = als, model = model, predictions = predictions, evaluator = evaluator,
          rmse = rmse, userRecs = userRecs, movieRecs = movieRecs, users = users,
          userSubsetRecs = userSubsetRecs, movies = movies,
          movieSubSetRecs = movieSubSetRecs\<rparr>)))))))))))))))))))))))"

subsection \<open>What a run wrote\<close>

text \<open>The collections written during a run, in order, read off the trace.\<close>

fun written :: "event list \<Rightarrow> namespace list" where
  "written [] = []"
| "written (Wrote ns m d # es) = ns # written es"
| "written (e # es) = written es"

subsection \<open>An example engine and an example store\<close>

text \<open>
  A small instance on which the script can be run by hand. The sampler's draw for row
  \<open>i\<close> under seed \<open>s\<close> is 0 when \<open>s + i\<close> is even and 7/8 when it is odd, so under seed 0
  the rows at even positions go to the training table and the others to the test table.
  The rating predicted for user \<open>u\<close> and item \<open>i\<close> is \<open>(u + i) / 10\<close>.
\<close>

definition example_engine :: engine where
  "example_engine =
     \<lparr>next_bits = (\<lambda>seed i. ((seed + i) mod 2) * (7 * 2 ^ 50)),
      learn = (\<lambda>p obs u i. of_int (u + i) / 10),
      float_str = (\<lambda>x. if x = Fin (9 / 5) then ''1.8'' else ''nan''),
      raises = (\<lambda>l. None)\<rparr>"

text \<open>The same engine, but the statement at line 75 raises.\<close>

definition failing_engine :: engine where
  "failing_engine =
     example_engine\<lparr>raises := (\<lambda>l. if l = 75 then Some ''Py4JJavaError'' else None)\<rparr>"

definition example_collection :: dataframe where
  "example_collection =
     \<lparr>schema = [(''_id'', StringType), (''user_id'', IntegerType), (''movie_id'', IntegerType),
                (''rating'', DoubleType)],
      rows = [[StrV ''a'', IntV 1, IntV 10, DoubleV (Fin 4)],
              [StrV ''b'', IntV 2, IntV 10, DoubleV (Fin 3)],
              [StrV ''c'', IntV 2, IntV 30, DoubleV (Fin 5)],
              [StrV ''d'', IntV 3, IntV 10, DoubleV (Fin 1)]]\<rparr>"

definition example_world :: world where
  "example_world =
     \<lparr>store = [(''movies'', ''movie_ratings'') \<mapsto> example_collection],
      session = NotStarted, loggers = Map.empty, randoms = (\<lambda>n. 0), drawn = 0, trace = []\<rparr>"

text \<open>The same world, but the process's random module returns 1 instead of 0.\<close>

definition other_world :: world where
  "other_world = example_world\<lparr>randoms := (\<lambda>n. 1)\<rparr>"

text \<open>What the script computes on the example, statement by statement.\<close>

definition example_ratings :: dataframe where
  "example_ratings =
     \<lparr>schema = [(''user_id'', IntegerType), (''movie_id'', IntegerType), (''rating'', DoubleType)],
      rows = [[IntV 1, IntV 10, DoubleV (Fin 4)],
              [IntV 2, IntV 10, DoubleV (Fin 3)],
              [IntV 2, IntV 30, DoubleV (Fin 5)],
              [IntV 3, IntV 10, DoubleV (Fin 1)]]\<rparr>"

definition example_training :: dataframe where
  "example_training =
     \<lparr>schema = [(''user_id'', IntegerType), (''movie_id'', IntegerType), (''rating'', DoubleType)],
      rows = [[IntV 1, IntV 10, DoubleV (Fin 4)],
              [IntV 2, IntV 30, DoubleV (Fin 5)]]\<rparr>"

definition example_test :: dataframe where
  "example_test =
     \<lparr>schema = [(''user_id'', IntegerType), (''movie_id'', IntegerType), (''rating'', DoubleType)],
      rows = [[IntV 2, IntV 10, DoubleV (Fin 3)],
              [IntV 3, IntV 10, DoubleV (Fin 1)]]\<rparr>"

definition example_als :: als_params where
  "example_als =
     \<lparr>maxIter = 5, regParam = 1 / 100, userCol = ''user_id'', itemCol = ''movie_id'',
      ratingCol = ''rating'', coldStartStrategy = ''drop''\<rparr>"

definition example_model :: als_model where
  "example_model =
     \<lparr>fitted_with = example_als, user_ids = [1, 2], item_ids = [10, 30],
      predict = (\<lambda>u i. of_int (u + i) / 10)\<rparr>"

definition example_predictions :: dataframe where
  "example_predictions =
     \<lparr>schema = [(''user_id'', IntegerType), (''movie_id'', IntegerType), (''rating'', DoubleType),
                (''prediction'', FloatType)],
      rows = [[IntV 2, IntV 10, DoubleV (Fin 3), FloatV (Fin (6 / 5))]]\<rparr>"

definition example_userRecs :: dataframe where
  "example_userRecs =
     \<lparr>schema = [(''user_id'', IntegerType),
                (''recommendations'',
                 ArrayType (StructType [(''movie_id'', IntegerType), (''rating'', DoubleType)]))],
      rows = [[IntV 1, ArrayV [StructV [IntV 30, DoubleV (Fin (31 / 10))],
                               StructV [IntV 10, DoubleV (Fin (11 / 10))]]],
              [IntV 2, ArrayV [StructV [IntV 30, DoubleV (Fin (16 / 5))],
                               StructV [IntV 10, DoubleV (Fin (6 / 5))]]]]\<rparr>"

definition example_movieRecs :: dataframe where
  "example_movieRecs =
     \<lparr>schema = [(''movie_id'', IntegerType),
                (''recommendations'',
                 ArrayType (StructType [(''user_id'', IntegerType), (''rating'', FloatType)]))],
      rows = [[IntV 10, ArrayV [StructV [IntV 2, FloatV (Fin (6 / 5))],
                                StructV [IntV 1, FloatV (Fin (11 / 10))]]],
              [IntV 30, ArrayV [StructV [IntV 2, FloatV (Fin (16 / 5))],
                                StructV [IntV 1, FloatV (Fin (31 / 10))]]]]\<rparr>"

definition example_userSubsetRecs :: dataframe where
  "example_userSubsetRecs =
     \<lparr>schema = [(''user_id'', IntegerType),
                (''recommendations'',
                 ArrayType (StructType [(''movie_id'', IntegerType), (''rating'', FloatType)]))],
      rows = [[IntV 1, ArrayV [StructV [IntV 30, FloatV (Fin (31 / 10))],
                               StructV [IntV 10, FloatV (Fin (11 / 10))]]],
              [IntV 2, ArrayV [StructV [IntV 30, FloatV (Fin (16 / 5))],
                               StructV [IntV 10, FloatV (Fin (6 / 5))]]]]\<rparr>"

definition example_vars :: vars where
  "example_vars =
     \<lparr>sc = [(''spark.app.name'', ''MovieRatings''), (''spark.executor.memory'', ''4g'')],
      uri = ''mongodb://localhost:27017/movies.movie_ratings?readPreference=primaryPreferred'',
      df = example_collection,
      ratings = example_ratings,
      training = example_training,
      test = example_test,
      als = example_als,
      model = example_model,
      predictions = example_predictions,
      evaluator = \<lparr>metricName = ''rmse'', labelCol = ''rating'', predictionCol = ''prediction''\<rparr>,
      rmse = Fin (9 / 5),
      userRecs = example_userRecs,
      movieRecs = example_movieRecs,
      users = \<lparr>schema = [(''user_id'', IntegerType)], rows = [[IntV 1], [IntV 2], [IntV 3]]\<rparr>,
      userSubsetRecs = example_userSubsetRecs,
      movies = \<lparr>schema = [(''movie_id'', IntegerType)], rows = [[IntV 30], [IntV 10]]\<rparr>,
      movieSubSetRecs = example_movieRecs\<rparr>"

text \<open>The world when the statement at line 75 is reached, and when the script ends.\<close>

definition example_written :: world where
  "example_written =
     \<lparr>store = [(''movies'', ''movie_ratings'') \<mapsto> example_collection,
               (''movies'', ''user_recommendations'') \<mapsto> example_userRecs],
      session = Live [(''spark.app.name'', ''MovieRatings''), (''spark.executor.memory'', ''4g'')],
      loggers = [''org'' \<mapsto> ''WARN''], randoms = (\<lambda>n. 0), drawn = 1,
      trace = [SessionStarted [(''spark.app.name'', ''MovieRatings''),
                               (''spark.executor.memory'', ''4g'')],
               Loaded ''mongodb://localhost:27017/movies.movie_ratings?readPreference=primaryPreferred'',
               Printed ''Root-mean-square error = 1.8'',
               Wrote (''movies'', ''user_recommendations'') Overwrite example_userRecs]\<rparr>"

definition example_final :: world where
  "example_final =
     example_written
       \<lparr>session := Stopped,
        trace := trace example_written @
          [Showed example_userRecs, Showed example_movieRecs, Showed example_userSubsetRecs,
           Showed example_movieRecs, SessionStopped]\<rparr>"

section \<open>Facts about the engine and the script\<close>

subsection \<open>World transformers, field by field\<close>

lemma emit_fields [simp]:
  "store (emit e w) = store w" "session (emit e w) = session w" "loggers (emit e w) = loggers w"
  "randoms (emit e w) = randoms w" "drawn (emit e w) = drawn w"
  "trace (emit e w) = trace w @ [e]"
  by (simp_all add: emit_def)

lemma put_fields [simp]:
  "store (put ns t w) = (store w)(ns \<mapsto> t)" "session (put ns t w) = session w"
  "loggers (put ns t w) = loggers w" "randoms (put ns t w) = randoms w"
  "drawn (put ns t w) = drawn w" "trace (put ns t w) = trace w"
  by (simp_all add: put_def)

lemma set_session_fields [simp]:
  "store (set_session s w) = store w" "session (set_session s w) = s"
  "loggers (set_session s w) = loggers w" "randoms (set_session s w) = randoms w"
  "drawn (set_session s w) = drawn w" "trace (set_session s w) = trace w"
  by (simp_all add: set_session_def)

lemma set_logger_fields [simp]:
  "store (set_logger n l w) = store w" "session (set_logger n l w) = session w"
  "loggers (set_logger n l w) = (loggers w)(n \<mapsto> l)" "randoms (set_logger n l w) = randoms w"
  "drawn (set_logger n l w) = drawn w" "trace (set_logger n l w) = trace w"
  by (simp_all add: set_logger_def)

lemma advance_fields [simp]:
  "store (advance w) = store w" "session (advance w) = session w"
  "loggers (advance w) = loggers w" "randoms (advance w) = randoms w"
  "drawn (advance w) = Suc (drawn w)" "trace (advance w) = trace w"
  by (simp_all add: advance_def)

subsection \<open>The script as a flat chain of statements\<close>

lemma bnd_assoc: "bnd (bnd m g) f = bnd m (\<lambda>x. bnd (g x) f)"
  by (rule ext) (simp add: bnd_def split: prod.splits sum.splits)

lemma bnd_ret: "bnd m ret = m"
  by (rule ext) (simp add: bnd_def ret_def split: prod.splits sum.splits)

lemma conf_value:
  "set_conf (setAppName SparkConf ''MovieRatings'') ''spark.executor.memory'' ''4g''
     = [(''spark.app.name'', ''MovieRatings''), (''spark.executor.memory'', ''4g'')]"
  by (simp add: SparkConf_def setAppName_def set_conf_def)

lemma uri_namespace_value:
  "uri_namespace ''mongodb://localhost:27017/movies.movie_ratings?readPreference=primaryPreferred''
     = Some (''movies'', ''movie_ratings'')"
  by (simp add: uri_namespace_def)

lemma target_read:
  "target (options (format_src read_src ''com.mongodb.spark.sql'')
       [(''uri'', ''mongodb://localhost:27017/movies.movie_ratings?readPreference=primaryPreferred'')])
     = Inr (''movies'', ''movie_ratings'')"
  by (simp add: target_def options_def format_src_def read_src_def mongo_format_def
      uri_namespace_value)

lemma target_write:
  "target (mode (options (format_src (write_df d) ''com.mongodb.spark.sql.DefaultSource'')
             [(''uri'', ''mongodb://localhost:27017/movies.movie_ratings?readPreference=primaryPreferred''),
              (''collection'', ''user_recommendations'')]) m)
     = Inr (''movies'', ''user_recommendations'')"
  by (simp add: target_def options_def format_src_def write_df_def mode_def mongo_format_def
      uri_namespace_value)

lemma load_value:
  "load (options (format_src read_src ''com.mongodb.spark.sql'')
       [(''uri'', ''mongodb://localhost:27017/movies.movie_ratings?readPreference=primaryPreferred'')]) w
     = (Inr (case store w (''movies'', ''movie_ratings'') of
               None \<Rightarrow> \<lparr>schema = [], rows = []\<rparr> | Some t \<Rightarrow> t),
        emit (Loaded ''mongodb://localhost:27017/movies.movie_ratings?readPreference=primaryPreferred'') w)"
  unfolding load_def target_read by (simp add: options_def format_src_def read_src_def)

lemma save_value:
  "save (mode (options (format_src (write_df d) ''com.mongodb.spark.sql.DefaultSource'')
             [(''uri'', ''mongodb://localhost:27017/movies.movie_ratings?readPreference=primaryPreferred''),
              (''collection'', ''user_recommendations'')]) ''overwrite'') w
     = (Inr (), emit (Wrote (''movies'', ''user_recommendations'') Overwrite d)
                  (put (''movies'', ''user_recommendations'') d w))"
  unfolding save_def target_write
  by (simp add: parse_mode_def mode_def options_def format_src_def write_df_def)

lemma bounds_value: "bounds [4 / 5, 1 / 5] = [0, 4 / 5, 1]"
  by (simp add: bounds_def)

lemma split_two:
  "\<exists>a b. split_with_seed eng d [8 / 10, 2 / 10] seed = [a, b]"
  by (simp add: split_with_seed_def bounds_value)

lemma split_value:
  "\<exists>a b. split_with_seed eng d [8 / 10, 2 / 10] (randoms w (drawn w)) = [a, b]
     \<and> and_then (randomSplit eng d [8 / 10, 2 / 10] None) unpack2 w = (Inr (a, b), advance w)"
proof -
  obtain a b where "split_with_seed eng d [8 / 10, 2 / 10] (randoms w (drawn w)) = [a, b]"
    using split_two by blast
  then show ?thesis
    by (simp add: and_then_def randomSplit_def unpack2_def)
qed

subsection \<open>One statement at a time: runs that return\<close>

lemma ret_InrE:
  assumes "ret x w = (Inr v, w')"
  obtains "v = x" and "w' = w"
  using assms unfolding ret_def by auto

lemma case_pair_appE:
  assumes "case_prod g (a, b) w = r"
  obtains "g a b w = r"
  using assms by simp

lemma step_gen_InrE:
  assumes "bnd (line eng l p) f w = (Inr v, w')"
  obtains y w1 where "raises eng l = None" and "p w = (Inr y, w1)" and "f y w1 = (Inr v, w')"
  using assms unfolding bnd_def line_def
  by (auto split: prod.splits sum.splits option.splits)

lemma lift_InrE:
  assumes "bnd (line eng l (lift r)) f w = (Inr v, w')"
  obtains y where "raises eng l = None" and "r = Inr y" and "f y w = (Inr v, w')"
  using assms by (elim step_gen_InrE) (auto simp: lift_def)

lemma SparkContext_InrE:
  assumes "bnd (line eng l (SparkContext c)) f w = (Inr v, w')"
  obtains "raises eng l = None" and "\<forall>c'. session w \<noteq> Live c'"
    and "f c (emit (SessionStarted c) (set_session (Live c) w)) = (Inr v, w')"
  using assms by (elim step_gen_InrE) (auto simp: SparkContext_def split: session_state.splits)

lemma setLevel_InrE:
  assumes "bnd (line eng l (setLevel n lv)) f w = (Inr v, w')"
  obtains "raises eng l = None" and "f () (set_logger n lv w) = (Inr v, w')"
  using assms by (elim step_gen_InrE) (auto simp: setLevel_def)

lemma print_InrE:
  assumes "bnd (line eng l (print s)) f w = (Inr v, w')"
  obtains "raises eng l = None" and "f () (emit (Printed s) w) = (Inr v, w')"
  using assms by (elim step_gen_InrE) (auto simp: print_def)

lemma show_df_InrE:
  assumes "bnd (line eng l (show_df d)) f w = (Inr v, w')"
  obtains "raises eng l = None" and "f () (emit (Showed (limit d 20)) w) = (Inr v, w')"
  using assms by (elim step_gen_InrE) (auto simp: show_df_def)

lemma stop_InrE:
  assumes "bnd (line eng l stop) f w = (Inr v, w')"
  obtains "raises eng l = None" and "f () (emit SessionStopped (set_session Stopped w)) = (Inr v, w')"
  using assms by (elim step_gen_InrE) (auto simp: stop_def)

lemma load_InrE:
  assumes "bnd (line eng l (load (options (format_src read_src ''com.mongodb.spark.sql'')
       [(''uri'', ''mongodb://localhost:27017/movies.movie_ratings?readPreference=primaryPreferred'')])))
       f w = (Inr v, w')"
  obtains "raises eng l = None"
    and "f (case store w (''movies'', ''movie_ratings'') of
               None \<Rightarrow> \<lparr>schema = [], rows = []\<rparr> | Some t \<Rightarrow> t)
           (emit (Loaded ''mongodb://localhost:27017/movies.movie_ratings?readPreference=primaryPreferred'') w)
         = (Inr v, w')"
  using assms by (elim step_gen_InrE) (auto simp: load_value)

lemma save_InrE:
  assumes "bnd (line eng l (save (mode (options (format_src (write_df d) ''com.mongodb.spark.sql.DefaultSource'')
             [(''uri'', ''mongodb://localhost:27017/movies.movie_ratings?readPreference=primaryPreferred''),
              (''collection'', ''user_recommendations'')]) ''overwrite''))) f w = (Inr v, w')"
  obtains "raises eng l = None"
    and "f () (emit (Wrote (''movies'', ''user_recommendations'') Overwrite d)
                  (put (''movies'', ''user_recommendations'') d w)) = (Inr v, w')"
  using assms by (elim step_gen_InrE) (auto simp: save_value)

lemma split_InrE:
  assumes "bnd (line eng l (and_then (randomSplit eng2 d [8 / 10, 2 / 10] None) unpack2)) f w = (Inr v, w')"
  obtains a b where "raises eng l = None"
    and "split_with_seed eng2 d [8 / 10, 2 / 10] (randoms w (drawn w)) = [a, b]"
    and "f (a, b) (advance w) = (Inr v, w')"
  using assms split_value[of eng2 d w] by (elim step_gen_InrE) auto

lemmas returnE = ret_InrE case_pair_appE lift_InrE SparkContext_InrE
  setLevel_InrE print_InrE show_df_InrE stop_InrE load_InrE save_InrE split_InrE

subsection \<open>One statement at a time: runs that raise\<close>

lemma ret_InlE:
  assumes "ret x w = (Inl e, w')"
  obtains "False"
  using assms unfolding ret_def by auto

lemma step_gen_InlE:
  assumes "bnd (line eng l p) f w = (Inl e, w')"
  obtains (fault) x where "raises eng l = Some x" and "e = Uncaught l x" and "w' = w"
    | (exc) x where "raises eng l = None" and "p w = (Inl x, w')" and "e = Uncaught l x"
    | (cont) y w1 where "raises eng l = None" and "p w = (Inr y, w1)" and "f y w1 = (Inl e, w')"
  using assms unfolding bnd_def line_def
  by (auto split: prod.splits sum.splits option.splits)

lemma lift_InlE:
  assumes "bnd (line eng l (lift r)) f w = (Inl e, w')"
  obtains (here) x where "e = Uncaught l x" and "raises eng l = Some x \<or> r = Inl x" and "w' = w"
    | (cont) y where "raises eng l = None" and "r = Inr y" and "f y w = (Inl e, w')"
  using assms by (elim step_gen_InlE) (auto simp: lift_def)

lemma SparkContext_InlE:
  assumes "bnd (line eng l (SparkContext c)) f w = (Inl e, w')"
  obtains (here) x where "e = Uncaught l x"
      and "raises eng l = Some x \<or> (\<exists>c'. session w = Live c')" and "w' = w"
    | (cont) "raises eng l = None" and "\<forall>c'. session w \<noteq> Live c'"
      and "f c (emit (SessionStarted c) (set_session (Live c) w)) = (Inl e, w')"
  using assms by (elim step_gen_InlE) (auto simp: SparkContext_def split: session_state.splits)

lemma setLevel_InlE:
  assumes "bnd (line eng l (setLevel n lv)) f w = (Inl e, w')"
  obtains (here) x where "e = Uncaught l x" and "raises eng l = Some x" and "w' = w"
    | (cont) "raises eng l = None" and "f () (set_logger n lv w) = (Inl e, w')"
  using assms by (elim step_gen_InlE) (auto simp: setLevel_def)

lemma print_InlE:
  assumes "bnd (line eng l (print s)) f w = (Inl e, w')"
  obtains (here) x where "e = Uncaught l x" and "raises eng l = Some x" and "w' = w"
    | (cont) "raises eng l = None" and "f () (emit (Printed s) w) = (Inl e, w')"
  using assms by (elim step_gen_InlE) (auto simp: print_def)

lemma show_df_InlE:
  assumes "bnd (line eng l (show_df d)) f w = (Inl e, w')"
  obtains (here) x where "e = Uncaught l x" and "raises eng l = Some x" and "w' = w"
    | (cont) "raises eng l = None" and "f () (emit (Showed (limit d 20)) w) = (Inl e, w')"
  using assms by (elim step_gen_InlE) (auto simp: show_df_def)

lemma stop_InlE:
  assumes "bnd (line eng l stop) f w = (Inl e, w')"
  obtains (here) x where "e = Uncaught l x" and "raises eng l = Some x" and "w' = w"
    | (cont) "raises eng l = None"
      and "f () (emit SessionStopped (set_session Stopped w)) = (Inl e, w')"
  using assms by (elim step_gen_InlE) (auto simp: stop_def)

lemma load_InlE:
  assumes "bnd (line eng l (load (options (format_src read_src ''com.mongodb.spark.sql'')
       [(''uri'', ''mongodb://localhost:27017/movies.movie_ratings?readPreference=primaryPreferred'')])))
       f w = (Inl e, w')"
  obtains (here) x where "e = Uncaught l x" and "raises eng l = Some x" and "w' = w"
    | (cont) "raises eng l = None"
    and "f (case store w (''movies'', ''movie_ratings'') of
               None \<Rightarrow> \<lparr>schema = [], rows = []\<rparr> | Some t \<Rightarrow> t)
           (emit (Loaded ''mongodb://localhost:27017/movies.movie_ratings?readPreference=primaryPreferred'') w)
         = (Inl e, w')"
  using assms by (elim step_gen_InlE) (auto simp: load_value)

lemma save_InlE:
  assumes "bnd (line eng l (save (mode (options (format_src (write_df d) ''com.mongodb.spark.sql.DefaultSource'')
             [(''uri'', ''mongodb://localhost:27017/movies.movie_ratings?readPreference=primaryPreferred''),
              (''collection'', ''user_recommendations'')]) ''overwrite''))) f w = (Inl e, w')"
  obtains (here) x where "e = Uncaught l x" and "raises eng l = Some x" and "w' = w"
    | (cont) "raises eng l = None"
    and "f () (emit (Wrote (''movies'', ''user_recommendations'') Overwrite d)
                  (put (''movies'', ''user_recommendations'') d w)) = (Inl e, w')"
  using assms by (elim step_gen_InlE) (auto simp: save_value)

lemma split_InlE:
  assumes "bnd (line eng l (and_then (randomSplit eng2 d [8 / 10, 2 / 10] None) unpack2)) f w = (Inl e, w')"
  obtains (here) x where "e = Uncaught l x" and "raises eng l = Some x" and "w' = w"
    | (cont) a b where "raises eng l = None"
    and "split_with_seed eng2 d [8 / 10, 2 / 10] (randoms w (drawn w)) = [a, b]"
    and "f (a, b) (advance w) = (Inl e, w')"
  using assms split_value[of eng2 d w] by (elim step_gen_InlE) auto

lemmas raiseE = ret_InlE case_pair_appE lift_InlE SparkContext_InlE
  setLevel_InlE print_InlE show_df_InlE stop_InlE load_InlE save_InlE split_InlE

subsection \<open>Columns and projection\<close>

lemma index_of_Some: "index_of n xs = Some i \<Longrightarrow> i < length xs \<and> xs ! i = n"
  by (induction xs arbitrary: i) (auto split: if_splits)

lemma those_map_Some:
  "those (map f xs) = Some ys \<Longrightarrow> list_all2 (\<lambda>x y. f x = Some y) xs ys"
  by (induction xs arbitrary: ys) (auto split: option.splits)

lemma select_result:
  assumes "select d names = Inr r"
  shows "columns r = names"
    and "\<forall>row \<in> set (rows r). length row = length names"
proof -
  from assms obtain idx where idx: "those (map (\<lambda>n. index_of n (columns d)) names) = Some idx"
    and r: "r = \<lparr>schema = map (\<lambda>i. schema d ! i) idx,
                 rows = map (\<lambda>row. map (\<lambda>i. row ! i) idx) (rows d)\<rparr>"
    by (auto simp: select_def split: option.splits)
  have rel: "list_all2 (\<lambda>n i. index_of n (columns d) = Some i) names idx"
    using those_map_Some[OF idx] .
  have "map (\<lambda>i. fst (schema d ! i)) idx = names"
    using rel
  proof (induction names idx rule: list_all2_induct)
    case Nil
    then show ?case by simp
  next
    case (Cons n ns i js)
    from index_of_Some[OF Cons.hyps(1)] have "i < length (schema d)" and "fst (schema d ! i) = n"
      by (auto simp: columns_def)
    then show ?case
      using Cons.IH by simp
  qed
  then show "columns r = names"
    by (simp add: r columns_def comp_def)
  show "\<forall>row \<in> set (rows r). length row = length names"
    using list_all2_lengthD[OF rel] by (auto simp: r)
qed

lemma index_of_three:
  "index_of ''user_id'' [''user_id'', ''movie_id'', ''rating''] = Some 0"
  "index_of ''movie_id'' [''user_id'', ''movie_id'', ''rating''] = Some 1"
  "index_of ''rating'' [''user_id'', ''movie_id'', ''rating''] = Some 2"
  by simp_all

subsection \<open>Random split\<close>

lemma draw_range: "0 \<le> draw eng seed i \<and> draw eng seed i < 1"
proof -
  have "next_bits eng seed i mod 2 ^ 53 < (2::nat) ^ 53" by simp
  then have "real (next_bits eng seed i mod 2 ^ 53) < 2 ^ 53"
    by (metis of_nat_less_iff of_nat_numeral of_nat_power)
  then show ?thesis by (simp add: draw_def)
qed

lemma split_parts:
  assumes "split_with_seed eng d [8 / 10, 2 / 10] seed = [a, b]"
  shows "a = d\<lparr>rows := map snd (filter (\<lambda>ir. draw eng seed (fst ir) < 4 / 5) (enumerate 0 (rows d)))\<rparr>"
    and "b = d\<lparr>rows := map snd (filter (\<lambda>ir. \<not> draw eng seed (fst ir) < 4 / 5) (enumerate 0 (rows d)))\<rparr>"
proof -
  have c1: "in_cell eng seed (0, 4 / 5) = (\<lambda>ir. draw eng seed (fst ir) < 4 / 5)"
    using draw_range by (auto simp: in_cell_def fun_eq_iff)
  have c2: "in_cell eng seed (4 / 5, 1) = (\<lambda>ir. \<not> draw eng seed (fst ir) < 4 / 5)"
    using draw_range by (auto simp: in_cell_def fun_eq_iff not_less)
  from assms show
    "a = d\<lparr>rows := map snd (filter (\<lambda>ir. draw eng seed (fst ir) < 4 / 5) (enumerate 0 (rows d)))\<rparr>"
    "b = d\<lparr>rows := map snd (filter (\<lambda>ir. \<not> draw eng seed (fst ir) < 4 / 5) (enumerate 0 (rows d)))\<rparr>"
    by (simp_all add: split_with_seed_def bounds_value c1 c2)
qed

lemma split_partition:
  assumes "split_with_seed eng d [8 / 10, 2 / 10] seed = [a, b]"
  shows "schema a = schema d" and "schema b = schema d"
    and "mset (rows a) + mset (rows b) = mset (rows d)"
    and "set (rows a) \<subseteq> set (rows d)" and "set (rows b) \<subseteq> set (rows d)"
proof -
  note p = split_parts[OF assms]
  show "schema a = schema d" "schema b = schema d" by (simp_all add: p)
  have "mset (map snd (filter P (enumerate 0 xs))) + mset (map snd (filter (\<lambda>x. \<not> P x) (enumerate 0 xs)))
        = mset xs" for P :: "nat \<times> val list \<Rightarrow> bool" and xs
  proof -
    have "mset (map snd (filter P (enumerate 0 xs))) + mset (map snd (filter (\<lambda>x. \<not> P x) (enumerate 0 xs)))
          = image_mset snd (mset (enumerate 0 xs))"
      by (simp flip: image_mset_union)
    also have "\<dots> = mset xs"
      by (metis mset_map map_snd_enumerate)
    finally show ?thesis .
  qed
  then show "mset (rows a) + mset (rows b) = mset (rows d)" by (simp add: p)
  have "set (map snd (filter P (enumerate 0 xs))) \<subseteq> set xs" for P :: "nat \<times> val list \<Rightarrow> bool" and xs
    by (auto simp: in_set_enumerate_eq)
  then show "set (rows a) \<subseteq> set (rows d)" "set (rows b) \<subseteq> set (rows d)" by (simp_all add: p)
qed

subsection \<open>Fitting\<close>

lemma fit_result:
  assumes "fit eng p d = Inr m"
  obtains obs where "observations p d = Inr obs" and "obs \<noteq> []"
    and "fitted_with m = p" and "user_ids m = remdups (map fst obs)"
    and "item_ids m = remdups (map (\<lambda>t. fst (snd t)) obs)" and "predict m = learn eng p obs"
  using assms by (auto simp: fit_def split: sum.splits if_splits)

subsection \<open>Top-k\<close>

lemma top_k_length: "length (top_k k xs) = min k (length xs)"
  by (simp add: top_k_def min.commute)

lemma top_k_subset: "set (top_k k xs) \<subseteq> set xs"
  unfolding top_k_def using set_take_subset[of k "sort_key (\<lambda>p. - snd p) xs"] by simp

lemma top_k_sorted: "sorted_wrt (\<lambda>a b. snd b \<le> snd a) (top_k k xs)"
proof -
  have "sorted (map (\<lambda>p. - snd p) (sort_key (\<lambda>p. - snd p) xs))"
    by (rule sorted_sort_key)
  then have "sorted_wrt (\<lambda>a b. snd b \<le> snd a) (sort_key (\<lambda>p. - snd p) xs)"
    by (simp add: sorted_wrt_map)
  then show ?thesis
    unfolding top_k_def by (rule sorted_wrt_take)
qed

lemma top_k_distinct: "distinct (map fst xs) \<Longrightarrow> distinct (map fst (top_k k xs))"
proof -
  assume d: "distinct (map fst xs)"
  have "mset (map fst (sort_key (\<lambda>p. - snd p) xs)) = mset (map fst xs)"
    by simp
  then have "distinct (map fst (sort_key (\<lambda>p. - snd p) xs))"
    using d by (metis mset_eq_imp_distinct_iff)
  then show ?thesis
    unfolding top_k_def by (simp add: take_map[symmetric] distinct_take)
qed

subsection \<open>Recommendation tables and their cast\<close>

lemma cast_recommendations:
  assumes "srcCol \<noteq> ''recommendations''"
  shows "then_do (getitem (recommendForAll srcCol dstCol srcs dsts f k) ''recommendations'') (\<lambda>c.
           withColumn (recommendForAll srcCol dstCol srcs dsts f k) ''recommendations''
             (cast c (ArrayType (StructType [(n1, IntegerType), (n2, DoubleType)]))))
         = Inr \<lparr>schema = [(srcCol, IntegerType),
                          (''recommendations'',
                           ArrayType (StructType [(n1, IntegerType), (n2, DoubleType)]))],
                rows = map (\<lambda>s. [IntV s,
                                  ArrayV (map (\<lambda>p. StructV [IntV (fst p), DoubleV (Fin (snd p))])
                                            (top_k k (map (\<lambda>t. (t, f s t)) dsts)))])
                         srcs\<rparr>"
  using assms
  by (simp add: recommendForAll_def then_do_def getitem_def columns_def cast_def withColumn_def
      rec_entry_def comp_def)

subsection \<open>Predictions and their evaluation\<close>

lemma prediction_known:
  "prediction m a b r \<noteq> NaN \<longleftrightarrow>
     (\<exists>u i. cell r a = Some (IntV u) \<and> cell r b = Some (IntV i)
        \<and> u \<in> set (user_ids m) \<and> i \<in> set (item_ids m))"
  by (auto simp: prediction_def split: option.splits val.splits)

lemma transform_drop:
  assumes "columns d = [''user_id'', ''movie_id'', ''rating'']"
    and "userCol (fitted_with m) = ''user_id''" and "itemCol (fitted_with m) = ''movie_id''"
    and "coldStartStrategy (fitted_with m) = ''drop''"
  shows "transform m d =
           Inr \<lparr>schema = schema d @ [(''prediction'', FloatType)],
                rows = map (\<lambda>r. r @ [FloatV (prediction m 0 1 r)])
                         (filter (\<lambda>r. prediction m 0 1 r \<noteq> NaN) (rows d))\<rparr>"
proof -
  have "filter scored (map (\<lambda>r. r @ [FloatV (prediction m 0 1 r)]) xs)
        = map (\<lambda>r. r @ [FloatV (prediction m 0 1 r)]) (filter (\<lambda>r. prediction m 0 1 r \<noteq> NaN) xs)"
    for xs
    by (induction xs) (simp_all add: scored_def)
  then show ?thesis
    using assms by (simp add: transform_def)
qed

lemma evaluate_rmse:
  assumes "columns d = [''user_id'', ''movie_id'', ''rating'', ''prediction'']"
    and "evaluate (RegressionEvaluator ''rmse'' ''rating'' ''prediction'') d = Inr x"
  obtains ps where "those (map (scored_pair 3 2) (rows d)) = Some ps" and "x = rmse_of ps"
  using assms
  by (auto simp: evaluate_def RegressionEvaluator_def numeral_3_eq_3 numeral_2_eq_2
      split: option.splits)

lemma those_length: "those xs = Some ys \<Longrightarrow> length ys = length xs"
  by (induction xs arbitrary: ys) (auto split: option.splits)


subsection \<open>Rows of a recommendation table\<close>

lemma recommendForAll_row:
  assumes "r \<in> set (rows (recommendForAll srcCol dstCol srcs dsts f k))" and "distinct dsts"
  obtains s es where "r = [IntV s, ArrayV (map (\<lambda>p. StructV [IntV (fst p), FloatV (Fin (snd p))]) es)]"
    and "s \<in> set srcs" and "es = top_k k (map (\<lambda>t. (t, f s t)) dsts)"
    and "length es = min k (length dsts)" and "distinct (map fst es)"
    and "fst ` set es \<subseteq> set dsts" and "\<forall>p \<in> set es. snd p = f s (fst p)"
    and "sorted_wrt (\<lambda>a b. snd b \<le> snd a) es"
proof -
  from assms(1) obtain s where s: "s \<in> set srcs"
    and r: "r = [IntV s, ArrayV (map rec_entry (top_k k (map (\<lambda>t. (t, f s t)) dsts)))]"
    by (auto simp: recommendForAll_def)
  let ?es = "top_k k (map (\<lambda>t. (t, f s t)) dsts)"
  have sub: "set ?es \<subseteq> set (map (\<lambda>t. (t, f s t)) dsts)" by (rule top_k_subset)
  have "distinct (map fst (map (\<lambda>t. (t, f s t)) dsts))"
    using assms(2) by (simp add: comp_def)
  then have "distinct (map fst ?es)" by (rule top_k_distinct)
  moreover have "length ?es = min k (length dsts)" by (simp add: top_k_length)
  moreover have "fst ` set ?es \<subseteq> set dsts" using sub by auto
  moreover have "\<forall>p \<in> set ?es. snd p = f s (fst p)" using sub by auto
  moreover have "sorted_wrt (\<lambda>a b. snd b \<le> snd a) ?es" by (rule top_k_sorted)
  moreover have "r = [IntV s, ArrayV (map (\<lambda>p. StructV [IntV (fst p), FloatV (Fin (snd p))]) ?es)]"
    using r by (simp add: rec_entry_def[abs_def])
  ultimately show ?thesis using that s by blast
qed

lemma subset_ids_subset: "set (subset_ids d a ids) \<subseteq> set ids"
  by (auto simp: subset_ids_def)

subsection \<open>The example, run\<close>

lemmas script_defs = main_def init_spark_context_def ret_def bnd_def lift_def then_do_def line_def
  SparkContext_def SparkConf_def setAppName_def set_conf_def setLevel_def stop_def print_def
  show_df_def SQLContext_def load_def save_def target_def uri_namespace_def mongo_format_def
  parse_mode_def options_def format_src_def read_src_def write_df_def mode_def and_then_def
  unpack2_def emit_def put_def set_session_def set_logger_def advance_def

lemmas engine_defs = columns_def select_def distinct_rows_def limit_def getitem_def cast_def
  withColumn_def cell_def bounds_def draw_def in_cell_def split_with_seed_def randomSplit_def
  ALS_def getUserCol_def getItemCol_def observation_def observations_def fit_def prediction_def
  scored_def transform_def RegressionEvaluator_def rmse_of_def scored_pair_def evaluate_def
  top_k_def rec_entry_def recommendForAll_def recommendForAllUsers_def recommendForAllItems_def
  subset_ids_def recommendForUserSubset_def recommendForItemSubset_def
  enumerate_eq_zip upt_rec sort_key_def Let_def

lemmas example_defs = example_engine_def failing_engine_def example_collection_def
  example_world_def other_world_def example_ratings_def example_training_def example_test_def
  example_als_def example_model_def example_predictions_def example_userRecs_def
  example_movieRecs_def example_userSubsetRecs_def example_vars_def example_written_def
  example_final_def

lemma example_run: "main example_engine example_world = (Inr example_vars, example_final)"
  by (simp add: example_defs script_defs engine_defs)

lemma failing_run:
  "main failing_engine example_world = (Inl (Uncaught 75 ''Py4JJavaError''), example_written)"
  by (simp add: example_defs script_defs engine_defs)

lemma other_run:
  "\<exists>v w'. main example_engine other_world = (Inr v, w')
     \<and> ratings v = example_ratings
     \<and> rows (training v) = [[IntV 2, IntV 10, DoubleV (Fin 3)], [IntV 3, IntV 10, DoubleV (Fin 1)]]"
  by (simp add: example_defs script_defs engine_defs)

subsection \<open>The whole script: runs that return, runs that raise\<close>

lemma written_append [simp]: "written (xs @ ys) = written xs @ written ys"
  by (induction xs rule: written.induct) simp_all

text \<open>A run that returns: every variable is what its statement computes from the
  variables before it, and the world has changed by the effects in source order.\<close>

lemma main_returns_all:
  "\<forall>v w'. main eng w = (Inr v, w') \<longrightarrow>
     (sc v = [(''spark.app.name'', ''MovieRatings''), (''spark.executor.memory'', ''4g'')])
   \<and> (uri v = ''mongodb://localhost:27017/movies.movie_ratings?readPreference=primaryPreferred'')
   \<and> (df v = (case store w (''movies'', ''movie_ratings'') of
               None \<Rightarrow> \<lparr>schema = [], rows = []\<rparr> | Some t \<Rightarrow> t))
   \<and> (select (df v) [''user_id'', ''movie_id'', ''rating''] = Inr (ratings v))
   \<and> (split_with_seed eng (ratings v) [8 / 10, 2 / 10] (randoms w (drawn w)) = [training v, test v])
   \<and> (als v = ALS 5 (1 / 100) ''user_id'' ''movie_id'' ''rating'' ''drop'')
   \<and> (fit eng (als v) (training v) = Inr (model v))
   \<and> (transform (model v) (test v) = Inr (predictions v))
   \<and> (evaluator v = RegressionEvaluator ''rmse'' ''rating'' ''prediction'')
   \<and> (evaluate (evaluator v) (predictions v) = Inr (rmse v))
   \<and> (then_do (getitem (recommendForAllUsers (model v) 10) ''recommendations'') (\<lambda>c.
         withColumn (recommendForAllUsers (model v) 10) ''recommendations''
           (cast c (ArrayType (StructType [(''movie_id'', IntegerType), (''rating'', DoubleType)]))))
       = Inr (userRecs v))
   \<and> (movieRecs v = recommendForAllItems (model v) 10)
   \<and> (then_do (select (ratings v) [getUserCol (als v)]) (\<lambda>d. Inr (limit (distinct_rows d) 3))
       = Inr (users v))
   \<and> (recommendForUserSubset (model v) (users v) 10 = Inr (userSubsetRecs v))
   \<and> (then_do (select (ratings v) [getItemCol (als v)]) (\<lambda>d. Inr (limit (distinct_rows d) 3))
       = Inr (movies v))
   \<and> (recommendForItemSubset (model v) (movies v) 10 = Inr (movieSubSetRecs v))
   \<and> (store w' = (store w)((''movies'', ''user_recommendations'') \<mapsto> userRecs v))
   \<and> (session w' = Stopped)
   \<and> (\<forall>c. session w \<noteq> Live c)
   \<and> (loggers w' = (loggers w)(''org'' \<mapsto> ''WARN''))
   \<and> (randoms w' = randoms w)
   \<and> (drawn w' = Suc (drawn w))
   \<and> (trace w' = trace w @
        [SessionStarted (sc v), Loaded (uri v),
         Printed (''Root-mean-square error = '' @ float_str eng (rmse v)),
         Wrote (''movies'', ''user_recommendations'') Overwrite (userRecs v),
         Showed (limit (userRecs v) 20), Showed (limit (movieRecs v) 20),
         Showed (limit (userSubsetRecs v) 20), Showed (limit (movieSubSetRecs v) 20),
         SessionStopped])
   \<and> (list_all (\<lambda>l. raises eng l = None) [27, 34, 39, 41, 42, 44, 50, 53, 56, 57, 60, 63, 72, 75, 78, 79, 81, 82, 84, 85, 86, 87, 90])"
  unfolding main_def init_spark_context_def Let_def conf_value bnd_assoc bnd_ret
  apply (intro allI impI)
  apply (elim returnE)
  apply simp
  done

lemma main_returns:
  assumes "main eng w = (Inr v, w')"
  shows ret_sc: "sc v = [(''spark.app.name'', ''MovieRatings''), (''spark.executor.memory'', ''4g'')]"
    and ret_uri: "uri v = ''mongodb://localhost:27017/movies.movie_ratings?readPreference=primaryPreferred''"
    and ret_df: "df v = (case store w (''movies'', ''movie_ratings'') of
               None \<Rightarrow> \<lparr>schema = [], rows = []\<rparr> | Some t \<Rightarrow> t)"
    and ret_ratings: "select (df v) [''user_id'', ''movie_id'', ''rating''] = Inr (ratings v)"
    and ret_split: "split_with_seed eng (ratings v) [8 / 10, 2 / 10] (randoms w (drawn w)) = [training v, test v]"
    and ret_als: "als v = ALS 5 (1 / 100) ''user_id'' ''movie_id'' ''rating'' ''drop''"
    and ret_model: "fit eng (als v) (training v) = Inr (model v)"
    and ret_predictions: "transform (model v) (test v) = Inr (predictions v)"
    and ret_evaluator: "evaluator v = RegressionEvaluator ''rmse'' ''rating'' ''prediction''"
    and ret_rmse: "evaluate (evaluator v) (predictions v) = Inr (rmse v)"
    and ret_userRecs: "then_do (getitem (recommendForAllUsers (model v) 10) ''recommendations'') (\<lambda>c.
         withColumn (recommendForAllUsers (model v) 10) ''recommendations''
           (cast c (ArrayType (StructType [(''movie_id'', IntegerType), (''rating'', DoubleType)]))))
       = Inr (userRecs v)"
    and ret_movieRecs: "movieRecs v = recommendForAllItems (model v) 10"
    and ret_users: "then_do (select (ratings v) [getUserCol (als v)]) (\<lambda>d. Inr (limit (distinct_rows d) 3))
       = Inr (users v)"
    and ret_userSubsetRecs: "recommendForUserSubset (model v) (users v) 10 = Inr (userSubsetRecs v)"
    and ret_movies: "then_do (select (ratings v) [getItemCol (als v)]) (\<lambda>d. Inr (limit (distinct_rows d) 3))
       = Inr (movies v)"
    and ret_movieSubSetRecs: "recommendForItemSubset (model v) (movies v) 10 = Inr (movieSubSetRecs v)"
    and ret_store: "store w' = (store w)((''movies'', ''user_recommendations'') \<mapsto> userRecs v)"
    and ret_session: "session w' = Stopped"
    and ret_fresh: "\<forall>c. session w \<noteq> Live c"
    and ret_loggers: "loggers w' = (loggers w)(''org'' \<mapsto> ''WARN'')"
    and ret_randoms: "randoms w' = randoms w"
    and ret_drawn: "drawn w' = Suc (drawn w)"
    and ret_trace: "trace w' = trace w @
        [SessionStarted (sc v), Loaded (uri v),
         Printed (''Root-mean-square error = '' @ float_str eng (rmse v)),
         Wrote (''movies'', ''user_recommendations'') Overwrite (userRecs v),
         Showed (limit (userRecs v) 20), Showed (limit (movieRecs v) 20),
         Showed (limit (userSubsetRecs v) 20), Showed (limit (movieSubSetRecs v) 20),
         SessionStopped]"
    and ret_no_fault: "list_all (\<lambda>l. raises eng l = None) [27, 34, 39, 41, 42, 44, 50, 53, 56, 57, 60, 63, 72, 75, 78, 79, 81, 82, 84, 85, 86, 87, 90]"
  using main_returns_all [rule_format, OF assms]
  apply -
  apply (elim conjE, assumption)+
  done

text \<open>A run that raises: the line it raises at, and what the world has become by
  then.\<close>

lemma main_raises_all:
  "\<forall>l x w'. main eng w = (Inl (Uncaught l x), w') \<longrightarrow>
     (l \<in> set [27, 34, 39, 41, 42, 44, 50, 53, 56, 57, 60, 63, 72, 75, 78, 79, 81, 82, 84, 85, 86, 87, 90])
   \<and> (raises eng l = Some x \<or> l \<in> set [27, 42, 50, 53, 56, 63, 78, 79, 81, 82])
   \<and> (session w' = (if l = 27 then session w else Live [(''spark.app.name'', ''MovieRatings''), (''spark.executor.memory'', ''4g'')]))
   \<and> (take (length (trace w)) (trace w') = trace w)
   \<and> (SessionStopped \<notin> set (drop (length (trace w)) (trace w')))
   \<and> (written (trace w') = written (trace w) @ (if 72 < l then [(''movies'', ''user_recommendations'')] else []))
   \<and> (l \<le> 72 \<longrightarrow> store w' = store w)
   \<and> (72 < l \<longrightarrow>
           store w' = (store w)((''movies'', ''user_recommendations'') \<mapsto> the (store w' (''movies'', ''user_recommendations'')))
         \<and> Wrote (''movies'', ''user_recommendations'') Overwrite (the (store w' (''movies'', ''user_recommendations'')))
             \<in> set (drop (length (trace w)) (trace w'))
         \<and> (\<exists>m. then_do (getitem (recommendForAllUsers m 10) ''recommendations'') (\<lambda>c.
               withColumn (recommendForAllUsers m 10) ''recommendations''
                 (cast c (ArrayType (StructType [(''movie_id'', IntegerType), (''rating'', DoubleType)]))))
             = Inr (the (store w' (''movies'', ''user_recommendations'')))))"
  unfolding main_def init_spark_context_def Let_def conf_value bnd_assoc bnd_ret
  apply (intro allI impI)
  apply (elim raiseE)
  apply simp_all
  apply blast+
  done

lemma main_raises:
  assumes "main eng w = (Inl (Uncaught l x), w')"
  shows raise_line: "l \<in> set [27, 34, 39, 41, 42, 44, 50, 53, 56, 57, 60, 63, 72, 75, 78, 79, 81, 82, 84, 85, 86, 87, 90]"
    and raise_cause: "raises eng l = Some x \<or> l \<in> set [27, 42, 50, 53, 56, 63, 78, 79, 81, 82]"
    and raise_session: "session w' = (if l = 27 then session w else Live [(''spark.app.name'', ''MovieRatings''), (''spark.executor.memory'', ''4g'')])"
    and raise_trace: "take (length (trace w)) (trace w') = trace w"
    and raise_not_stopped: "SessionStopped \<notin> set (drop (length (trace w)) (trace w'))"
    and raise_written: "written (trace w') = written (trace w) @ (if 72 < l then [(''movies'', ''user_recommendations'')] else [])"
    and raise_early: "l \<le> 72 \<longrightarrow> store w' = store w"
    and raise_late: "72 < l \<longrightarrow>
           store w' = (store w)((''movies'', ''user_recommendations'') \<mapsto> the (store w' (''movies'', ''user_recommendations'')))
         \<and> Wrote (''movies'', ''user_recommendations'') Overwrite (the (store w' (''movies'', ''user_recommendations'')))
             \<in> set (drop (length (trace w)) (trace w'))
         \<and> (\<exists>m. then_do (getitem (recommendForAllUsers m 10) ''recommendations'') (\<lambda>c.
               withColumn (recommendForAllUsers m 10) ''recommendations''
                 (cast c (ArrayType (StructType [(''movie_id'', IntegerType), (''rating'', DoubleType)]))))
             = Inr (the (store w' (''movies'', ''user_recommendations''))))"
  using main_raises_all [rule_format, OF assms]
  apply -
  apply (elim conjE, assumption)+
  done

subsection \<open>The tables of a run that returns\<close>

lemma run_ratings:
  assumes "main eng w = (Inr v, w')"
  shows "columns (ratings v) = [''user_id'', ''movie_id'', ''rating'']"
    and "columns (training v) = [''user_id'', ''movie_id'', ''rating'']"
    and "columns (test v) = [''user_id'', ''movie_id'', ''rating'']"
proof -
  show r: "columns (ratings v) = [''user_id'', ''movie_id'', ''rating'']"
    using select_result(1)[OF ret_ratings[OF assms]] .
  from split_partition(1,2)[OF ret_split[OF assms]] r
  show "columns (training v) = [''user_id'', ''movie_id'', ''rating'']"
    and "columns (test v) = [''user_id'', ''movie_id'', ''rating'']"
    by (simp_all add: columns_def)
qed

lemma run_model:
  assumes "main eng w = (Inr v, w')"
  obtains obs where "observations (als v) (training v) = Inr obs" and "obs \<noteq> []"
    and "fitted_with (model v) = als v"
    and "user_ids (model v) = remdups (map fst obs)"
    and "item_ids (model v) = remdups (map (\<lambda>t. fst (snd t)) obs)"
    and "predict (model v) = learn eng (als v) obs"
  using fit_result[OF ret_model[OF assms]] by blast

lemma run_params:
  assumes "main eng w = (Inr v, w')"
  shows "userCol (fitted_with (model v)) = ''user_id''"
    and "itemCol (fitted_with (model v)) = ''movie_id''"
    and "coldStartStrategy (fitted_with (model v)) = ''drop''"
proof -
  from run_model[OF assms] have "fitted_with (model v) = als v" by metis
  with ret_als[OF assms]
  show "userCol (fitted_with (model v)) = ''user_id''"
    and "itemCol (fitted_with (model v)) = ''movie_id''"
    and "coldStartStrategy (fitted_with (model v)) = ''drop''"
    by (simp_all add: ALS_def)
qed

lemma run_userRecs:
  assumes "main eng w = (Inr v, w')"
  shows "userRecs v =
     \<lparr>schema = [(''user_id'', IntegerType),
                (''recommendations'',
                 ArrayType (StructType [(''movie_id'', IntegerType), (''rating'', DoubleType)]))],
      rows = map (\<lambda>s. [IntV s,
                        ArrayV (map (\<lambda>p. StructV [IntV (fst p), DoubleV (Fin (snd p))])
                                  (top_k 10 (map (\<lambda>t. (t, predict (model v) s t))
                                                (item_ids (model v)))))])
               (user_ids (model v))\<rparr>"
proof -
  have "recommendForAllUsers (model v) 10 =
          recommendForAll ''user_id'' ''movie_id'' (user_ids (model v)) (item_ids (model v))
            (predict (model v)) 10"
    by (simp add: recommendForAllUsers_def run_params[OF assms])
  with ret_userRecs[OF assms] show ?thesis
    by (simp add: cast_recommendations)
qed

section \<open>The claims\<close>

subsection \<open>Shutdown\<close>

text \<open>
  C9. The session shutdown is the last statement of the script and nothing catches an
  exception before it. Started in a process whose session is not already stopped: a run
  that falls through has stopped the session, and the stop is the last effect of the run;
  a run that raises does so at a line no later than the shutdown's, the exception reaches
  the top as the result of the run, the session is not stopped and no stop has happened
  during the run; and the shutdown statement itself fails only when the engine raises in
  it. So the session ends stopped exactly when no statement raised.
\<close>

theorem shutdown_only_on_fall_through:
  assumes "main eng w = (r, w')" and "session w \<noteq> Stopped"
  shows "(\<forall>v. r = Inr v \<longrightarrow> session w' = Stopped \<and> last (trace w') = SessionStopped)
       \<and> (\<forall>l x. r = Inl (Uncaught l x) \<longrightarrow>
             l \<le> 90 \<and> session w' \<noteq> Stopped
           \<and> SessionStopped \<notin> set (drop (length (trace w)) (trace w'))
           \<and> (l = 90 \<longrightarrow> raises eng 90 = Some x))
       \<and> (session w' = Stopped \<longleftrightarrow> (\<exists>v. r = Inr v))"
proof -
  have ok: "session w' = Stopped \<and> last (trace w') = SessionStopped" if "r = Inr v" for v
  proof -
    from assms(1) that have run: "main eng w = (Inr v, w')" by simp
    from ret_session[OF run] ret_trace[OF run] show ?thesis by simp
  qed
  have bad: "l \<le> 90 \<and> session w' \<noteq> Stopped
           \<and> SessionStopped \<notin> set (drop (length (trace w)) (trace w'))
           \<and> (l = 90 \<longrightarrow> raises eng 90 = Some x)" if "r = Inl (Uncaught l x)" for l x
  proof -
    from assms(1) that have run: "main eng w = (Inl (Uncaught l x), w')" by simp
    from raise_line[OF run] have "l \<le> 90" by auto
    moreover from raise_session[OF run] assms(2) have "session w' \<noteq> Stopped"
      by (simp split: if_splits)
    moreover from raise_cause[OF run] have "l = 90 \<longrightarrow> raises eng 90 = Some x" by auto
    ultimately show ?thesis using raise_not_stopped[OF run] by simp
  qed
  have "session w' = Stopped \<longleftrightarrow> (\<exists>v. r = Inr v)"
  proof (cases r)
    case (Inl e)
    then obtain l x where "r = Inl (Uncaught l x)" by (cases e) simp
    with bad[OF this] show ?thesis by simp
  next
    case (Inr v)
    with ok[OF this] show ?thesis by simp
  qed
  with ok bad show ?thesis by blast
qed

theorem shutdown_only_on_fall_through_witness:
  "main failing_engine example_world = (Inl (Uncaught 75 ''Py4JJavaError''), example_written)
   \<and> session example_world \<noteq> Stopped
   \<and> session example_written \<noteq> Stopped
   \<and> SessionStopped \<notin> set (trace example_written)
   \<and> main example_engine example_world = (Inr example_vars, example_final)
   \<and> session example_final = Stopped
   \<and> last (trace example_final) = SessionStopped"
proof -
  have fresh: "session example_world \<noteq> Stopped"
    by (simp add: example_world_def)
  show ?thesis
    using shutdown_only_on_fall_through [OF failing_run fresh]
      shutdown_only_on_fall_through [OF example_run fresh] failing_run example_run fresh
    by (simp add: example_world_def example_written_def)
qed

subsection \<open>The overwrite comes before the later steps\<close>

text \<open>
  C10. The overwrite of the collection \<^verbatim>\<open>user_recommendations\<close> (line 72) follows the
  all-users recommendation call and its cast (lines 60 and 63) and precedes the all-items
  call (75), both subset calls (78 to 82) and the four dumps (84 to 87). A run that raises
  at or before line 72 leaves the store as it was and has written nothing; a run that
  raises later does so at one of the lines 75 to 90, and by then the collection holds the
  cast top-10 table of a fitted model, in place of whatever it held, and the write is in
  the trace of the run.
\<close>

theorem overwrite_before_later_steps:
  assumes "main eng w = (Inl (Uncaught l x), w')"
  shows "(l \<le> 72 \<longrightarrow> store w' = store w \<and> written (trace w') = written (trace w))
       \<and> (72 < l \<longrightarrow>
             l \<in> {75, 78, 79, 81, 82, 84, 85, 86, 87, 90}
           \<and> (\<exists>t m. then_do (getitem (recommendForAllUsers m 10) ''recommendations'') (\<lambda>c.
                   withColumn (recommendForAllUsers m 10) ''recommendations''
                     (cast c (ArrayType (StructType
                        [(''movie_id'', IntegerType), (''rating'', DoubleType)]))))
                 = Inr t
               \<and> store w' = (store w)((''movies'', ''user_recommendations'') \<mapsto> t)
               \<and> Wrote (''movies'', ''user_recommendations'') Overwrite t \<in> set (trace w')
               \<and> written (trace w') = written (trace w) @ [(''movies'', ''user_recommendations'')]))"
proof -
  let ?t = "the (store w' (''movies'', ''user_recommendations''))"
  have early: "l \<le> 72 \<longrightarrow> store w' = store w \<and> written (trace w') = written (trace w)"
    using raise_early[OF assms] raise_written[OF assms] by simp
  have late: "l \<in> {75, 78, 79, 81, 82, 84, 85, 86, 87, 90}" if "72 < l"
    using raise_line[OF assms] that by auto
  have "\<exists>t m. then_do (getitem (recommendForAllUsers m 10) ''recommendations'') (\<lambda>c.
                   withColumn (recommendForAllUsers m 10) ''recommendations''
                     (cast c (ArrayType (StructType
                        [(''movie_id'', IntegerType), (''rating'', DoubleType)]))))
                 = Inr t
               \<and> store w' = (store w)((''movies'', ''user_recommendations'') \<mapsto> t)
               \<and> Wrote (''movies'', ''user_recommendations'') Overwrite t \<in> set (trace w')
               \<and> written (trace w') = written (trace w) @ [(''movies'', ''user_recommendations'')]"
    if "72 < l"
  proof -
    from raise_late[OF assms] that obtain m where
      m: "then_do (getitem (recommendForAllUsers m 10) ''recommendations'') (\<lambda>c.
                 withColumn (recommendForAllUsers m 10) ''recommendations''
                   (cast c (ArrayType (StructType
                      [(''movie_id'', IntegerType), (''rating'', DoubleType)]))))
               = Inr ?t"
      and st: "store w' = (store w)((''movies'', ''user_recommendations'') \<mapsto> ?t)"
      and tr: "Wrote (''movies'', ''user_recommendations'') Overwrite ?t
               \<in> set (drop (length (trace w)) (trace w'))"
      by blast
    from tr have "Wrote (''movies'', ''user_recommendations'') Overwrite ?t \<in> set (trace w')"
      by (rule in_set_dropD)
    moreover from raise_written[OF assms] that
    have "written (trace w') = written (trace w) @ [(''movies'', ''user_recommendations'')]"
      by simp
    ultimately show ?thesis using m st by blast
  qed
  with early late show ?thesis by blast
qed

theorem overwrite_before_later_steps_witness:
  "main failing_engine example_world = (Inl (Uncaught 75 ''Py4JJavaError''), example_written)
   \<and> (72::nat) < 75
   \<and> store example_world (''movies'', ''user_recommendations'') = None
   \<and> store example_written (''movies'', ''user_recommendations'') = Some example_userRecs
   \<and> Wrote (''movies'', ''user_recommendations'') Overwrite example_userRecs
       \<in> set (trace example_written)
   \<and> written (trace example_written) = [(''movies'', ''user_recommendations'')]"
  using overwrite_before_later_steps [OF failing_run] failing_run
  by (simp add: example_world_def example_written_def)

subsection \<open>Data Loader\<close>

text \<open>
  C7. In every run that returns, the table is loaded from the connection URI
  \<^verbatim>\<open>mongodb://localhost:27017/movies.movie_ratings?readPreference=primaryPreferred\<close>,
  which is fixed in the script: it names the collection \<^verbatim>\<open>movie_ratings\<close> of the
  database \<^verbatim>\<open>movies\<close>, the loaded table is that collection, and the load with that URI
  is in the trace. The ratings table is the projection of the loaded table on the
  columns \<^verbatim>\<open>user_id\<close>, \<^verbatim>\<open>movie_id\<close>, \<^verbatim>\<open>rating\<close>, and has exactly these three
  columns.
\<close>

theorem loader_reads_uri_and_projects:
  assumes "main eng w = (Inr v, w')"
  shows "uri v = ''mongodb://localhost:27017/movies.movie_ratings?readPreference=primaryPreferred''
       \<and> uri_namespace (uri v) = Some (''movies'', ''movie_ratings'')
       \<and> Loaded (uri v) \<in> set (trace w')
       \<and> df v = (case store w (''movies'', ''movie_ratings'') of
                   None \<Rightarrow> \<lparr>schema = [], rows = []\<rparr> | Some t \<Rightarrow> t)
       \<and> select (df v) [''user_id'', ''movie_id'', ''rating''] = Inr (ratings v)
       \<and> columns (ratings v) = [''user_id'', ''movie_id'', ''rating'']"
proof -
  have "Loaded (uri v) \<in> set (trace w')"
    by (simp add: ret_trace[OF assms])
  moreover have "uri_namespace (uri v) = Some (''movies'', ''movie_ratings'')"
    by (simp only: ret_uri[OF assms] uri_namespace_value)
  ultimately show ?thesis
    using ret_uri[OF assms] ret_df[OF assms] ret_ratings[OF assms] run_ratings(1)[OF assms]
    by blast
qed

theorem loader_reads_uri_and_projects_witness:
  "main example_engine example_world = (Inr example_vars, example_final)
   \<and> uri example_vars = ''mongodb://localhost:27017/movies.movie_ratings?readPreference=primaryPreferred''
   \<and> columns (df example_vars) = [''_id'', ''user_id'', ''movie_id'', ''rating'']
   \<and> columns (ratings example_vars) = [''user_id'', ''movie_id'', ''rating'']"
proof -
  have "columns (df example_vars) = [''_id'', ''user_id'', ''movie_id'', ''rating'']"
    by (simp add: example_vars_def example_collection_def columns_def)
  with loader_reads_uri_and_projects [OF example_run] example_run show ?thesis
    by simp
qed

subsection \<open>Trainer\<close>

text \<open>
  C2. In every run that returns, the estimator is configured with max iterations 5,
  regularization parameter 0.01 (the decimal literal, as an exact number), cold-start
  strategy \<^verbatim>\<open>drop\<close>, user column \<^verbatim>\<open>user_id\<close>, item column \<^verbatim>\<open>movie_id\<close> and rating
  column \<^verbatim>\<open>rating\<close>; the model is the result of fitting that estimator on the training
  table, the first part of the split, and carries these parameters.
\<close>

theorem trainer_fits_with_fixed_hyperparameters:
  assumes "main eng w = (Inr v, w')"
  shows "als v = \<lparr>maxIter = 5, regParam = 1 / 100, userCol = ''user_id'', itemCol = ''movie_id'',
                  ratingCol = ''rating'', coldStartStrategy = ''drop''\<rparr>
       \<and> fit eng (als v) (training v) = Inr (model v)
       \<and> fitted_with (model v) = als v
       \<and> split_with_seed eng (ratings v) [8 / 10, 2 / 10] (randoms w (drawn w))
           = [training v, test v]"
proof -
  from run_model[OF assms] have "fitted_with (model v) = als v" by metis
  then show ?thesis
    using ret_als[OF assms] ret_model[OF assms] ret_split[OF assms]
    by (simp add: ALS_def)
qed

theorem trainer_fits_with_fixed_hyperparameters_witness:
  "main example_engine example_world = (Inr example_vars, example_final)
   \<and> maxIter (fitted_with (model example_vars)) = 5
   \<and> regParam (fitted_with (model example_vars)) = 1 / 100
   \<and> coldStartStrategy (fitted_with (model example_vars)) = ''drop''
   \<and> rows (training example_vars) = [[IntV 1, IntV 10, DoubleV (Fin 4)],
                                      [IntV 2, IntV 30, DoubleV (Fin 5)]]
   \<and> user_ids (model example_vars) = [1, 2]
   \<and> item_ids (model example_vars) = [10, 30]"
proof -
  have "rows (training example_vars) = [[IntV 1, IntV 10, DoubleV (Fin 4)],
                                       [IntV 2, IntV 30, DoubleV (Fin 5)]]"
    and "user_ids (model example_vars) = [1, 2]"
    and "item_ids (model example_vars) = [10, 30]"
    by (simp_all add: example_vars_def example_model_def example_training_def)
  with trainer_fits_with_fixed_hyperparameters [OF example_run] example_run show ?thesis
    by simp
qed

subsection \<open>Writer\<close>

text \<open>
  C1. In every run that returns: the all-users recommendation table comes from the
  engine with the nested rating in single precision; the script casts the column
  \<^verbatim>\<open>recommendations\<close> to an array of structs of a 32-bit integer \<^verbatim>\<open>movie_id\<close> and a
  double-precision \<^verbatim>\<open>rating\<close>, which keeps every row, identifier and numeric value and
  changes the precision only; and it then writes the cast table to the collection
  \<^verbatim>\<open>user_recommendations\<close> in mode overwrite, after which the collection holds exactly
  that table, whatever it held before.
\<close>

theorem writer_casts_then_overwrites:
  assumes "main eng w = (Inr v, w')"
  shows "schema (recommendForAllUsers (model v) 10) =
           [(''user_id'', IntegerType),
            (''recommendations'',
             ArrayType (StructType [(''movie_id'', IntegerType), (''rating'', FloatType)]))]
       \<and> withColumn (recommendForAllUsers (model v) 10) ''recommendations''
           (cast (Col ''recommendations'')
              (ArrayType (StructType [(''movie_id'', IntegerType), (''rating'', DoubleType)])))
           = Inr (userRecs v)
       \<and> schema (userRecs v) =
           [(''user_id'', IntegerType),
            (''recommendations'',
             ArrayType (StructType [(''movie_id'', IntegerType), (''rating'', DoubleType)]))]
       \<and> (\<exists>rs. rows (recommendForAllUsers (model v) 10) =
                  map (\<lambda>(u, es). [IntV u,
                        ArrayV (map (\<lambda>p. StructV [IntV (fst p), FloatV (Fin (snd p))]) es)]) rs
              \<and> rows (userRecs v) =
                  map (\<lambda>(u, es). [IntV u,
                        ArrayV (map (\<lambda>p. StructV [IntV (fst p), DoubleV (Fin (snd p))]) es)]) rs)
       \<and> store w' (''movies'', ''user_recommendations'') = Some (userRecs v)
       \<and> Wrote (''movies'', ''user_recommendations'') Overwrite (userRecs v) \<in> set (trace w')
       \<and> written (trace w') = written (trace w) @ [(''movies'', ''user_recommendations'')]"
proof -
  let ?d = "recommendForAllUsers (model v) 10"
  let ?top = "\<lambda>s. top_k 10 (map (\<lambda>t. (t, predict (model v) s t)) (item_ids (model v)))"
  have d: "?d = recommendForAll ''user_id'' ''movie_id'' (user_ids (model v)) (item_ids (model v))
            (predict (model v)) 10"
    by (simp add: recommendForAllUsers_def run_params[OF assms])
  have sch: "schema ?d =
           [(''user_id'', IntegerType),
            (''recommendations'',
             ArrayType (StructType [(''movie_id'', IntegerType), (''rating'', FloatType)]))]"
    by (simp add: d recommendForAll_def)
  have "getitem ?d ''recommendations'' = Inr (Col ''recommendations'')"
    by (simp add: getitem_def columns_def sch)
  with ret_userRecs[OF assms]
  have cst: "withColumn ?d ''recommendations''
           (cast (Col ''recommendations'')
              (ArrayType (StructType [(''movie_id'', IntegerType), (''rating'', DoubleType)])))
           = Inr (userRecs v)"
    by (simp add: then_do_def)
  have rows_src: "rows ?d =
      map (\<lambda>(u, es). [IntV u, ArrayV (map (\<lambda>p. StructV [IntV (fst p), FloatV (Fin (snd p))]) es)])
        (map (\<lambda>s. (s, ?top s)) (user_ids (model v)))"
    by (simp add: d recommendForAll_def rec_entry_def comp_def)
  have rows_dst: "rows (userRecs v) =
      map (\<lambda>(u, es). [IntV u, ArrayV (map (\<lambda>p. StructV [IntV (fst p), DoubleV (Fin (snd p))]) es)])
        (map (\<lambda>s. (s, ?top s)) (user_ids (model v)))"
    by (simp add: run_userRecs[OF assms] comp_def)
  have sch': "schema (userRecs v) =
           [(''user_id'', IntegerType),
            (''recommendations'',
             ArrayType (StructType [(''movie_id'', IntegerType), (''rating'', DoubleType)]))]"
    by (simp add: run_userRecs[OF assms])
  have st: "store w' (''movies'', ''user_recommendations'') = Some (userRecs v)"
    by (simp add: ret_store[OF assms])
  have tr: "Wrote (''movies'', ''user_recommendations'') Overwrite (userRecs v) \<in> set (trace w')"
    by (simp add: ret_trace[OF assms])
  have wr: "written (trace w') = written (trace w) @ [(''movies'', ''user_recommendations'')]"
    by (simp add: ret_trace[OF assms])
  from rows_src rows_dst have "\<exists>rs. rows ?d =
                  map (\<lambda>(u, es). [IntV u,
                        ArrayV (map (\<lambda>p. StructV [IntV (fst p), FloatV (Fin (snd p))]) es)]) rs
              \<and> rows (userRecs v) =
                  map (\<lambda>(u, es). [IntV u,
                        ArrayV (map (\<lambda>p. StructV [IntV (fst p), DoubleV (Fin (snd p))]) es)]) rs"
    by blast
  with sch cst sch' st tr wr show ?thesis by blast
qed

theorem writer_casts_then_overwrites_witness:
  "main example_engine example_world = (Inr example_vars, example_final)
   \<and> store example_world (''movies'', ''user_recommendations'') = None
   \<and> store example_final (''movies'', ''user_recommendations'') = Some example_userRecs
   \<and> userRecs example_vars = example_userRecs
   \<and> snd (schema example_userRecs ! 1)
       = ArrayType (StructType [(''movie_id'', IntegerType), (''rating'', DoubleType)])"
proof -
  have "store example_world (''movies'', ''user_recommendations'') = None"
    by (simp add: example_world_def)
  moreover have u: "userRecs example_vars = example_userRecs"
    by (simp add: example_vars_def)
  moreover have "snd (schema example_userRecs ! 1)
       = ArrayType (StructType [(''movie_id'', IntegerType), (''rating'', DoubleType)])"
    by (simp add: example_userRecs_def)
  moreover from writer_casts_then_overwrites [OF example_run]
  have "store example_final (''movies'', ''user_recommendations'') = Some example_userRecs"
    by (simp add: u)
  ultimately show ?thesis using example_run by simp
qed

subsection \<open>Recommender: the all-users table\<close>

text \<open>
  C3. In every run that returns, every row of the all-users recommendation table (as
  written and shown, after the cast) is a user with a list of at most 10 entries, and the
  predicted ratings of the list are in descending order.
\<close>

theorem all_users_lists_top_10_descending:
  assumes "main eng w = (Inr v, w')"
  shows "\<forall>r \<in> set (rows (userRecs v)).
           \<exists>u es. r = [IntV u, ArrayV (map (\<lambda>p. StructV [IntV (fst p), DoubleV (Fin (snd p))]) es)]
                \<and> length es \<le> 10
                \<and> sorted_wrt (\<lambda>a b. snd b \<le> snd a) es"
proof
  fix r assume "r \<in> set (rows (userRecs v))"
  then obtain s where
    r: "r = [IntV s, ArrayV (map (\<lambda>p. StructV [IntV (fst p), DoubleV (Fin (snd p))])
               (top_k 10 (map (\<lambda>t. (t, predict (model v) s t)) (item_ids (model v)))))]"
    by (auto simp: run_userRecs[OF assms])
  let ?es = "top_k 10 (map (\<lambda>t. (t, predict (model v) s t)) (item_ids (model v)))"
  have "length ?es \<le> 10" by (simp add: top_k_length)
  moreover have "sorted_wrt (\<lambda>a b. snd b \<le> snd a) ?es" by (rule top_k_sorted)
  ultimately show "\<exists>u es. r = [IntV u, ArrayV (map (\<lambda>p. StructV [IntV (fst p), DoubleV (Fin (snd p))]) es)]
                \<and> length es \<le> 10
                \<and> sorted_wrt (\<lambda>a b. snd b \<le> snd a) es"
    using r by blast
qed

theorem all_users_lists_top_10_descending_witness:
  "main example_engine example_world = (Inr example_vars, example_final)
   \<and> [IntV 2, ArrayV [StructV [IntV 30, DoubleV (Fin (16 / 5))],
                      StructV [IntV 10, DoubleV (Fin (6 / 5))]]]
       \<in> set (rows (userRecs example_vars))
   \<and> (\<exists>u es. [IntV 2, ArrayV [StructV [IntV 30, DoubleV (Fin (16 / 5))],
                               StructV [IntV 10, DoubleV (Fin (6 / 5))]]]
               = [IntV u, ArrayV (map (\<lambda>p. StructV [IntV (fst p), DoubleV (Fin (snd p))]) es)]
            \<and> length es \<le> 10
            \<and> sorted_wrt (\<lambda>a b. snd b \<le> snd a) es)"
proof -
  have mem: "[IntV 2, ArrayV [StructV [IntV 30, DoubleV (Fin (16 / 5))],
                              StructV [IntV 10, DoubleV (Fin (6 / 5))]]]
       \<in> set (rows (userRecs example_vars))"
    by (simp add: example_vars_def example_userRecs_def)
  from bspec [OF all_users_lists_top_10_descending [OF example_run] mem] mem example_run
  show ?thesis by blast
qed

subsection \<open>Evaluator\<close>

text \<open>
  C5. In every run that returns, the model was fitted with the cold-start strategy
  \<^verbatim>\<open>drop\<close>, and the predictions table holds exactly the rows of the test table whose
  user and whose item both occur in the training table, each with its prediction, which
  is a number and never NaN: a test row whose user or item was never seen in training is
  left out, not scored. The root-mean-square error is one floating-point value, computed
  from the (prediction, rating) pairs of exactly these rows.
\<close>

theorem rmse_over_rows_surviving_cold_start:
  assumes "main eng w = (Inr v, w')"
  shows "\<exists>obs ps.
           observations (als v) (training v) = Inr obs
         \<and> coldStartStrategy (fitted_with (model v)) = ''drop''
         \<and> rows (predictions v) =
             map (\<lambda>r. r @ [FloatV (prediction (model v) 0 1 r)])
               (filter (\<lambda>r. \<exists>u i. cell r 0 = Some (IntV u) \<and> cell r 1 = Some (IntV i)
                                \<and> u \<in> fst ` set obs \<and> i \<in> (\<lambda>t. fst (snd t)) ` set obs)
                  (rows (test v)))
         \<and> (\<forall>r \<in> set (rows (predictions v)). \<exists>x. last r = FloatV (Fin x))
         \<and> those (map (scored_pair 3 2) (rows (predictions v))) = Some ps
         \<and> length ps = length (rows (predictions v))
         \<and> rmse v = rmse_of ps"
proof -
  let ?m = "model v"
  from run_model[OF assms] obtain obs where obs: "observations (als v) (training v) = Inr obs"
    and us: "user_ids ?m = remdups (map fst obs)"
    and its: "item_ids ?m = remdups (map (\<lambda>t. fst (snd t)) obs)"
    by metis
  note par = run_params[OF assms]
  have p: "predictions v =
           \<lparr>schema = schema (test v) @ [(''prediction'', FloatType)],
            rows = map (\<lambda>r. r @ [FloatV (prediction ?m 0 1 r)])
                     (filter (\<lambda>r. prediction ?m 0 1 r \<noteq> NaN) (rows (test v)))\<rparr>"
    using ret_predictions[OF assms] transform_drop[OF run_ratings(3)[OF assms] par]
    by simp
  have known: "(\<lambda>r. prediction ?m 0 1 r \<noteq> NaN)
             = (\<lambda>r. \<exists>u i. cell r 0 = Some (IntV u) \<and> cell r 1 = Some (IntV i)
                        \<and> u \<in> fst ` set obs \<and> i \<in> (\<lambda>t. fst (snd t)) ` set obs)"
    by (rule ext) (simp add: prediction_known us its)
  have rows_p: "rows (predictions v) =
             map (\<lambda>r. r @ [FloatV (prediction ?m 0 1 r)])
               (filter (\<lambda>r. \<exists>u i. cell r 0 = Some (IntV u) \<and> cell r 1 = Some (IntV i)
                                \<and> u \<in> fst ` set obs \<and> i \<in> (\<lambda>t. fst (snd t)) ` set obs)
                  (rows (test v)))"
    unfolding p known by simp
  have fin: "\<forall>r \<in> set (rows (predictions v)). \<exists>x. last r = FloatV (Fin x)"
  proof
    fix r assume "r \<in> set (rows (predictions v))"
    then obtain r0 where "prediction ?m 0 1 r0 \<noteq> NaN"
      and "r = r0 @ [FloatV (prediction ?m 0 1 r0)]"
      by (auto simp: p)
    then show "\<exists>x. last r = FloatV (Fin x)"
      by (cases "prediction ?m 0 1 r0") simp_all
  qed
  have "columns (predictions v) = [''user_id'', ''movie_id'', ''rating'', ''prediction'']"
    using run_ratings(3)[OF assms] by (simp add: p columns_def)
  from evaluate_rmse[OF this] ret_rmse[OF assms] ret_evaluator[OF assms]
  obtain ps where ps: "those (map (scored_pair 3 2) (rows (predictions v))) = Some ps"
    and x: "rmse v = rmse_of ps"
    by metis
  from those_length[OF ps] have "length ps = length (rows (predictions v))" by simp
  with obs par(3) rows_p fin ps x show ?thesis by blast
qed

theorem rmse_over_rows_surviving_cold_start_witness:
  "main example_engine example_world = (Inr example_vars, example_final)
   \<and> rows (training example_vars) = [[IntV 1, IntV 10, DoubleV (Fin 4)],
                                      [IntV 2, IntV 30, DoubleV (Fin 5)]]
   \<and> rows (test example_vars) = [[IntV 2, IntV 10, DoubleV (Fin 3)],
                                  [IntV 3, IntV 10, DoubleV (Fin 1)]]
   \<and> rows (predictions example_vars) = [[IntV 2, IntV 10, DoubleV (Fin 3), FloatV (Fin (6 / 5))]]
   \<and> rmse example_vars = Fin (9 / 5)
   \<and> (\<exists>ps. those (map (scored_pair 3 2) (rows (predictions example_vars))) = Some ps
          \<and> length ps = length (rows (predictions example_vars))
          \<and> rmse example_vars = rmse_of ps)"
proof -
  have "rows (training example_vars) = [[IntV 1, IntV 10, DoubleV (Fin 4)],
                                       [IntV 2, IntV 30, DoubleV (Fin 5)]]"
    and "rows (test example_vars) = [[IntV 2, IntV 10, DoubleV (Fin 3)],
                                  [IntV 3, IntV 10, DoubleV (Fin 1)]]"
    and "rows (predictions example_vars) = [[IntV 2, IntV 10, DoubleV (Fin 3), FloatV (Fin (6 / 5))]]"
    and "rmse example_vars = Fin (9 / 5)"
    by (simp_all add: example_vars_def example_training_def example_test_def
        example_predictions_def)
  with rmse_over_rows_surviving_cold_start [OF example_run] example_run show ?thesis
    by blast
qed

subsection \<open>Splitter\<close>

text \<open>
  C6. In every run that returns, the ratings table is split into exactly two tables with
  the weights 0.8 and 0.2 and no seed given: the seed is the next number of the process's
  random module, which the split consumes. The two tables have the columns of the ratings
  table and between them hold each of its rows exactly once. The split is not
  reproducible: there are two runs of the script on the same store, with the same
  engine, whose ratings tables are equal and whose training tables differ.
\<close>

theorem split_is_80_20_and_unseeded:
  assumes "main eng w = (Inr v, w')"
  shows "split_with_seed eng (ratings v) [8 / 10, 2 / 10] (randoms w (drawn w))
           = [training v, test v]
       \<and> drawn w' = Suc (drawn w)
       \<and> schema (training v) = schema (ratings v)
       \<and> schema (test v) = schema (ratings v)
       \<and> mset (rows (training v)) + mset (rows (test v)) = mset (rows (ratings v))
       \<and> (\<exists>e wa wb va vb ua ub.
             store wa = store wb
           \<and> main e wa = (Inr va, ua) \<and> main e wb = (Inr vb, ub)
           \<and> ratings va = ratings vb \<and> training va \<noteq> training vb)"
proof -
  note s = ret_split[OF assms]
  have "store example_world = store other_world"
    by (simp add: other_world_def)
  moreover from other_run obtain vb ub where "main example_engine other_world = (Inr vb, ub)"
    and "ratings vb = example_ratings"
    and "rows (training vb) = [[IntV 2, IntV 10, DoubleV (Fin 3)], [IntV 3, IntV 10, DoubleV (Fin 1)]]"
    by blast
  moreover have "ratings example_vars = example_ratings"
    and "rows (training example_vars) = [[IntV 1, IntV 10, DoubleV (Fin 4)],
                                         [IntV 2, IntV 30, DoubleV (Fin 5)]]"
    by (simp_all add: example_vars_def example_training_def)
  ultimately have "\<exists>e wa wb va vb ua ub.
             store wa = store wb
           \<and> main e wa = (Inr va, ua) \<and> main e wb = (Inr vb, ub)
           \<and> ratings va = ratings vb \<and> training va \<noteq> training vb"
    using example_run by (metis list.inject val.inject(1) zero_neq_one one_add_one
        numeral_eq_one_iff semiring_norm(85))
  with s ret_drawn[OF assms] split_partition(1,2,3)[OF s] show ?thesis by blast
qed

theorem split_is_80_20_and_unseeded_witness:
  "main example_engine example_world = (Inr example_vars, example_final)
   \<and> randoms example_world (drawn example_world) = 0
   \<and> split_with_seed example_engine (ratings example_vars) [8 / 10, 2 / 10] 0
       = [training example_vars, test example_vars]
   \<and> mset (rows (training example_vars)) + mset (rows (test example_vars))
       = mset (rows (ratings example_vars))"
proof -
  have "randoms example_world (drawn example_world) = 0"
    by (simp add: example_world_def)
  with split_is_80_20_and_unseeded [OF example_run] example_run show ?thesis
    by simp
qed

subsection \<open>Recommender: what the lists are drawn from\<close>

text \<open>
  C4, as stated, fails: the lists are not purged of pairs already rated. On the example,
  user 1 has rated movie 10 in the ratings table, and movie 10 is in the list recommended
  to user 1.
\<close>

theorem rated_pair_is_recommended:
  "main example_engine example_world = (Inr example_vars, example_final)
   \<and> [IntV 1, IntV 10, DoubleV (Fin 4)] \<in> set (rows (ratings example_vars))
   \<and> [IntV 1, ArrayV [StructV [IntV 30, DoubleV (Fin (31 / 10))],
                      StructV [IntV 10, DoubleV (Fin (11 / 10))]]]
       \<in> set (rows (userRecs example_vars))"
  using example_run
  by (simp add: example_vars_def example_ratings_def example_userRecs_def)

lemma top_k_candidates:
  assumes "distinct dsts"
  shows "length (top_k k (map (\<lambda>t. (t, f t)) dsts)) = min k (card (set dsts))"
    and "distinct (map fst (top_k k (map (\<lambda>t. (t, f t)) dsts)))"
    and "fst ` set (top_k k (map (\<lambda>t. (t, f t)) dsts)) \<subseteq> set dsts"
proof -
  show "length (top_k k (map (\<lambda>t. (t, f t)) dsts)) = min k (card (set dsts))"
    using assms by (simp add: top_k_length distinct_card)
  have "distinct (map fst (map (\<lambda>t. (t, f t)) dsts))"
    using assms by (simp add: comp_def)
  then show "distinct (map fst (top_k k (map (\<lambda>t. (t, f t)) dsts)))"
    by (rule top_k_distinct)
  show "fst ` set (top_k k (map (\<lambda>t. (t, f t)) dsts)) \<subseteq> set dsts"
    using top_k_subset[of k "map (\<lambda>t. (t, f t)) dsts"] by auto
qed

lemma recommendForAll_rows:
  assumes "r \<in> set (rows (recommendForAll srcCol dstCol srcs dsts f k))" and "distinct dsts"
  shows "\<exists>s es. r = [IntV s, ArrayV (map (\<lambda>p. StructV [IntV (fst p), FloatV (Fin (snd p))]) es)]
           \<and> s \<in> set srcs
           \<and> length es = min k (card (set dsts))
           \<and> distinct (map fst es)
           \<and> fst ` set es \<subseteq> set dsts"
proof -
  from assms(1) obtain s where s: "s \<in> set srcs"
    and r: "r = [IntV s, ArrayV (map rec_entry (top_k k (map (\<lambda>t. (t, f s t)) dsts)))]"
    by (auto simp: recommendForAll_def)
  have "r = [IntV s, ArrayV (map (\<lambda>p. StructV [IntV (fst p), FloatV (Fin (snd p))])
                              (top_k k (map (\<lambda>t. (t, f s t)) dsts)))]"
    using r by (simp add: rec_entry_def[abs_def])
  with s top_k_candidates[OF assms(2), of k "f s"] show ?thesis by blast
qed

text \<open>
  C4, amended. In every run that returns, in each of the four recommendation tables
  every row is a subject that occurs in the training table (a user, or an item for the
  two item tables) with a list of distinct entries drawn from all the items (all the
  users, for the item tables) of the training table, and the list has 10 entries or all
  of them when there are fewer than 10: nothing is left out for being already rated.
\<close>

theorem lists_drawn_from_all_training_ids:
  assumes "main eng w = (Inr v, w')"
  shows "\<exists>obs. observations (als v) (training v) = Inr obs
    \<and> (\<forall>r \<in> set (rows (userRecs v)).
         \<exists>u es. r = [IntV u, ArrayV (map (\<lambda>p. StructV [IntV (fst p), DoubleV (Fin (snd p))]) es)]
           \<and> u \<in> fst ` set obs
           \<and> length es = min 10 (card ((\<lambda>t. fst (snd t)) ` set obs))
           \<and> distinct (map fst es)
           \<and> fst ` set es \<subseteq> (\<lambda>t. fst (snd t)) ` set obs)
    \<and> (\<forall>r \<in> set (rows (movieRecs v)).
         \<exists>i es. r = [IntV i, ArrayV (map (\<lambda>p. StructV [IntV (fst p), FloatV (Fin (snd p))]) es)]
           \<and> i \<in> (\<lambda>t. fst (snd t)) ` set obs
           \<and> length es = min 10 (card (fst ` set obs))
           \<and> distinct (map fst es)
           \<and> fst ` set es \<subseteq> fst ` set obs)
    \<and> (\<forall>r \<in> set (rows (userSubsetRecs v)).
         \<exists>u es. r = [IntV u, ArrayV (map (\<lambda>p. StructV [IntV (fst p), FloatV (Fin (snd p))]) es)]
           \<and> u \<in> fst ` set obs
           \<and> length es = min 10 (card ((\<lambda>t. fst (snd t)) ` set obs))
           \<and> distinct (map fst es)
           \<and> fst ` set es \<subseteq> (\<lambda>t. fst (snd t)) ` set obs)
    \<and> (\<forall>r \<in> set (rows (movieSubSetRecs v)).
         \<exists>i es. r = [IntV i, ArrayV (map (\<lambda>p. StructV [IntV (fst p), FloatV (Fin (snd p))]) es)]
           \<and> i \<in> (\<lambda>t. fst (snd t)) ` set obs
           \<and> length es = min 10 (card (fst ` set obs))
           \<and> distinct (map fst es)
           \<and> fst ` set es \<subseteq> fst ` set obs)"
proof -
  let ?m = "model v"
  from run_model[OF assms] obtain obs where obs: "observations (als v) (training v) = Inr obs"
    and us: "user_ids ?m = remdups (map fst obs)"
    and its: "item_ids ?m = remdups (map (\<lambda>t. fst (snd t)) obs)"
    by metis
  have U: "set (user_ids ?m) = fst ` set obs" and I: "set (item_ids ?m) = (\<lambda>t. fst (snd t)) ` set obs"
    and dU: "distinct (user_ids ?m)" and dI: "distinct (item_ids ?m)"
    by (simp_all add: us its)
  note par = run_params[OF assms]
  have a: "\<exists>u es. r = [IntV u, ArrayV (map (\<lambda>p. StructV [IntV (fst p), DoubleV (Fin (snd p))]) es)]
           \<and> u \<in> fst ` set obs
           \<and> length es = min 10 (card ((\<lambda>t. fst (snd t)) ` set obs))
           \<and> distinct (map fst es)
           \<and> fst ` set es \<subseteq> (\<lambda>t. fst (snd t)) ` set obs"
    if "r \<in> set (rows (userRecs v))" for r
  proof -
    from that obtain s where s: "s \<in> set (user_ids ?m)"
      and r: "r = [IntV s, ArrayV (map (\<lambda>p. StructV [IntV (fst p), DoubleV (Fin (snd p))])
               (top_k 10 (map (\<lambda>t. (t, predict ?m s t)) (item_ids ?m))))]"
      by (auto simp: run_userRecs[OF assms])
    from s have "s \<in> fst ` set obs" by (simp add: U)
    with r top_k_candidates[OF dI, of 10 "predict ?m s"] show ?thesis
      unfolding I by (intro exI[of _ s] exI[of _ "top_k 10 (map (\<lambda>t. (t, predict ?m s t)) (item_ids ?m))"]) simp
  qed
  have b: "\<exists>i es. r = [IntV i, ArrayV (map (\<lambda>p. StructV [IntV (fst p), FloatV (Fin (snd p))]) es)]
           \<and> i \<in> (\<lambda>t. fst (snd t)) ` set obs
           \<and> length es = min 10 (card (fst ` set obs))
           \<and> distinct (map fst es)
           \<and> fst ` set es \<subseteq> fst ` set obs"
    if "r \<in> set (rows (movieRecs v))" for r
    using recommendForAll_rows[OF that[unfolded ret_movieRecs[OF assms] recommendForAllItems_def] dU]
    unfolding U I .
  have c: "\<exists>u es. r = [IntV u, ArrayV (map (\<lambda>p. StructV [IntV (fst p), FloatV (Fin (snd p))]) es)]
           \<and> u \<in> fst ` set obs
           \<and> length es = min 10 (card ((\<lambda>t. fst (snd t)) ` set obs))
           \<and> distinct (map fst es)
           \<and> fst ` set es \<subseteq> (\<lambda>t. fst (snd t)) ` set obs"
    if "r \<in> set (rows (userSubsetRecs v))" for r
  proof -
    from ret_userSubsetRecs[OF assms] obtain a where
      "recommendForAll (userCol (fitted_with ?m)) (itemCol (fitted_with ?m))
                 (subset_ids (users v) a (user_ids ?m)) (item_ids ?m) (predict ?m) 10
       = userSubsetRecs v"
      by (auto simp: recommendForUserSubset_def split: option.splits)
    from recommendForAll_rows[OF that[folded this] dI]
    obtain s es where "r = [IntV s, ArrayV (map (\<lambda>p. StructV [IntV (fst p), FloatV (Fin (snd p))]) es)]"
      and "s \<in> set (subset_ids (users v) a (user_ids ?m))"
      and "length es = min 10 (card (set (item_ids ?m)))"
      and "distinct (map fst es)" and "fst ` set es \<subseteq> set (item_ids ?m)"
      by blast
    moreover from this(2) subset_ids_subset[of "users v" a "user_ids ?m"]
    have "s \<in> fst ` set obs" unfolding U by (rule subsetD[rotated])
    ultimately show ?thesis
      unfolding I by (intro exI[of _ s] exI[of _ es]) simp
  qed
  have d: "\<exists>i es. r = [IntV i, ArrayV (map (\<lambda>p. StructV [IntV (fst p), FloatV (Fin (snd p))]) es)]
           \<and> i \<in> (\<lambda>t. fst (snd t)) ` set obs
           \<and> length es = min 10 (card (fst ` set obs))
           \<and> distinct (map fst es)
           \<and> fst ` set es \<subseteq> fst ` set obs"
    if "r \<in> set (rows (movieSubSetRecs v))" for r
  proof -
    from ret_movieSubSetRecs[OF assms] obtain a where
      "recommendForAll (itemCol (fitted_with ?m)) (userCol (fitted_with ?m))
                 (subset_ids (movies v) a (item_ids ?m)) (user_ids ?m) (\<lambda>i u. predict ?m u i) 10
       = movieSubSetRecs v"
      by (auto simp: recommendForItemSubset_def split: option.splits)
    from recommendForAll_rows[OF that[folded this] dU]
    obtain s es where "r = [IntV s, ArrayV (map (\<lambda>p. StructV [IntV (fst p), FloatV (Fin (snd p))]) es)]"
      and "s \<in> set (subset_ids (movies v) a (item_ids ?m))"
      and "length es = min 10 (card (set (user_ids ?m)))"
      and "distinct (map fst es)" and "fst ` set es \<subseteq> set (user_ids ?m)"
      by blast
    moreover from this(2) subset_ids_subset[of "movies v" a "item_ids ?m"]
    have "s \<in> (\<lambda>t. fst (snd t)) ` set obs" unfolding I by (rule subsetD[rotated])
    ultimately show ?thesis
      unfolding U by (intro exI[of _ s] exI[of _ es]) simp
  qed
  show ?thesis
    by (intro exI[of _ obs] conjI ballI) (rule obs, erule a, erule b, erule c, erule d)
qed

theorem lists_drawn_from_all_training_ids_witness:
  "main example_engine example_world = (Inr example_vars, example_final)
   \<and> [IntV 1, ArrayV [StructV [IntV 30, DoubleV (Fin (31 / 10))],
                      StructV [IntV 10, DoubleV (Fin (11 / 10))]]]
       \<in> set (rows (userRecs example_vars))
   \<and> (\<exists>obs. observations (als example_vars) (training example_vars) = Inr obs
        \<and> (\<exists>u es. [IntV 1, ArrayV [StructV [IntV 30, DoubleV (Fin (31 / 10))],
                                    StructV [IntV 10, DoubleV (Fin (11 / 10))]]]
                    = [IntV u, ArrayV (map (\<lambda>p. StructV [IntV (fst p), DoubleV (Fin (snd p))]) es)]
                 \<and> u \<in> fst ` set obs
                 \<and> length es = min 10 (card ((\<lambda>t. fst (snd t)) ` set obs))
                 \<and> distinct (map fst es)
                 \<and> fst ` set es \<subseteq> (\<lambda>t. fst (snd t)) ` set obs))"
proof -
  have mem: "[IntV 1, ArrayV [StructV [IntV 30, DoubleV (Fin (31 / 10))],
                              StructV [IntV 10, DoubleV (Fin (11 / 10))]]]
       \<in> set (rows (userRecs example_vars))"
    by (simp add: example_vars_def example_userRecs_def)
  from lists_drawn_from_all_training_ids [OF example_run] obtain obs where
    o: "observations (als example_vars) (training example_vars) = Inr obs"
    and u: "\<forall>r \<in> set (rows (userRecs example_vars)).
         \<exists>u es. r = [IntV u, ArrayV (map (\<lambda>p. StructV [IntV (fst p), DoubleV (Fin (snd p))]) es)]
           \<and> u \<in> fst ` set obs
           \<and> length es = min 10 (card ((\<lambda>t. fst (snd t)) ` set obs))
           \<and> distinct (map fst es)
           \<and> fst ` set es \<subseteq> (\<lambda>t. fst (snd t)) ` set obs"
    by (elim exE conjE)
  from bspec[OF u mem] o have "\<exists>obs. observations (als example_vars) (training example_vars) = Inr obs
        \<and> (\<exists>u es. [IntV 1, ArrayV [StructV [IntV 30, DoubleV (Fin (31 / 10))],
                                    StructV [IntV 10, DoubleV (Fin (11 / 10))]]]
                    = [IntV u, ArrayV (map (\<lambda>p. StructV [IntV (fst p), DoubleV (Fin (snd p))]) es)]
                 \<and> u \<in> fst ` set obs
                 \<and> length es = min 10 (card ((\<lambda>t. fst (snd t)) ` set obs))
                 \<and> distinct (map fst es)
                 \<and> fst ` set es \<subseteq> (\<lambda>t. fst (snd t)) ` set obs)"
    by (intro exI[of _ obs] conjI)
  with mem example_run show ?thesis by (intro conjI)
qed

subsection \<open>How many tables are written, and when\<close>

text \<open>
  C8, as stated, fails. On the example, the run that returns has written one collection,
  not two; and the run in which the second recommendation call (line 75) raises has
  already written it, so the write does not come after the four recommendation calls.
\<close>

theorem one_table_written_before_second_call:
  "main example_engine example_world = (Inr example_vars, example_final)
   \<and> written (trace example_final) = [(''movies'', ''user_recommendations'')]
   \<and> length (written (trace example_final)) \<noteq> 2
   \<and> main failing_engine example_world = (Inl (Uncaught 75 ''Py4JJavaError''), example_written)
   \<and> written (trace example_written) = [(''movies'', ''user_recommendations'')]"
  using example_run failing_run
  by (simp add: example_final_def example_written_def)

text \<open>
  C8, amended. In every run that returns, one result table is written to the document
  store: the cast all-users recommendation table, to the collection
  \<^verbatim>\<open>user_recommendations\<close>. The effects of the run are, in this order: the session
  starts, the ratings are loaded, the error line is printed, the table is written, the
  four tables are dumped, the session stops.
\<close>

theorem one_table_written_after_print_before_dumps:
  assumes "main eng w = (Inr v, w')"
  shows "written (trace w') = written (trace w) @ [(''movies'', ''user_recommendations'')]
       \<and> trace w' = trace w @
           [SessionStarted (sc v), Loaded (uri v),
            Printed (''Root-mean-square error = '' @ float_str eng (rmse v)),
            Wrote (''movies'', ''user_recommendations'') Overwrite (userRecs v),
            Showed (limit (userRecs v) 20), Showed (limit (movieRecs v) 20),
            Showed (limit (userSubsetRecs v) 20), Showed (limit (movieSubSetRecs v) 20),
            SessionStopped]
       \<and> then_do (getitem (recommendForAllUsers (model v) 10) ''recommendations'') (\<lambda>c.
             withColumn (recommendForAllUsers (model v) 10) ''recommendations''
               (cast c (ArrayType (StructType
                  [(''movie_id'', IntegerType), (''rating'', DoubleType)]))))
           = Inr (userRecs v)
       \<and> store w' = (store w)((''movies'', ''user_recommendations'') \<mapsto> userRecs v)"
proof -
  have "written (trace w') = written (trace w) @ [(''movies'', ''user_recommendations'')]"
    by (simp add: ret_trace[OF assms])
  with ret_trace[OF assms] ret_userRecs[OF assms] ret_store[OF assms] show ?thesis
    by blast
qed

theorem one_table_written_after_print_before_dumps_witness:
  "main example_engine example_world = (Inr example_vars, example_final)
   \<and> written (trace example_world) = []
   \<and> written (trace example_final) = [(''movies'', ''user_recommendations'')]
   \<and> store example_final =
       (store example_world)((''movies'', ''user_recommendations'') \<mapsto> userRecs example_vars)"
proof -
  have "written (trace example_world) = []"
    by (simp add: example_world_def)
  with one_table_written_after_print_before_dumps [OF example_run] example_run show ?thesis
    by simp
qed

end
